theory Spec2Isabelle
  imports Main
begin

section \<open>Errors and results\<close>

text \<open>
  Go functions of the plugin return a value together with an \<open>error\<close>; both are kept,
  because the caller may read the value although the error is set. The error is
  \<open>None\<close> for Go's \<open>nil\<close>. A run-time panic (a nil pointer dereference) is the
  outcome \<open>Panic\<close>.
\<close>

datatype fmtarg = ArgStr string | ArgStrs "string list"

datatype error =
    ErrFormatWrong
  | ErrNumeric
  | ErrSuffix
  | External string
  | Errorf string "fmtarg list"
  | Wrapf error string "fmtarg list"
  | WithStack error

datatype 'a outcome = Panic | Returns 'a

section \<open>The Kubernetes objects the plugin reads and writes\<close>

text \<open>
  A Go map that may be \<open>nil\<close> is an optional map. Reading a key of a \<open>nil\<close> map, or a
  key that is not there, gives the empty string.
\<close>

type_synonym strmap = "string \<rightharpoonup> string"

definition lookupStr :: "strmap \<Rightarrow> string \<Rightarrow> string" where
  "lookupStr m k = (case m k of None \<Rightarrow> [] | Some v \<Rightarrow> v)"

datatype format = DecimalExponent | BinarySI | DecimalSI

text \<open>
  \<open>resource.Quantity\<close>: the int64 amount \<open>value * 10 ^ scale\<close>, the arbitrary-precision
  amount behind a pointer (\<open>None\<close> for \<open>nil\<close>) as a pair of an unscaled integer and its
  number of decimal places, the cached canonical string, and the format.
\<close>

type_synonym dec = "int \<times> int"

record quantity =
  i_value :: int
  i_scale :: int
  d_Dec :: "dec option"
  s_cache :: string
  Format :: format

datatype resourceName = ResourceCPU | ResourceMemory

type_synonym resourceList = "resourceName \<rightharpoonup> quantity"

record resourceRequirements =
  Limits :: resourceList
  Requests :: resourceList

record securityContext =
  RunAsUser :: "int option"
  RunAsGroup :: "int option"
  AllowPrivilegeEscalation :: "bool option"

datatype objectFieldSelector = ObjectFieldSelector (FieldPath: string)

datatype envVarSource = EnvVarSource (FieldRef: "objectFieldSelector option")

record envVar =
  evName :: string
  evValue :: string
  evValueFrom :: "envVarSource option"

record volumeMount =
  vmName :: string
  vmMountPath :: string
  vmReadOnly :: bool

record persistentVolumeClaimVolumeSource =
  ClaimName :: string
  pvcReadOnly :: bool

text \<open>
  A volume: of its sources only the persistent-volume-claim pointer is read; every other
  source (config map, secret, ...) is kept as a label.
\<close>

record volume =
  vName :: string
  PersistentVolumeClaim :: "persistentVolumeClaimVolumeSource option"
  vOtherSource :: "string option"

record container =
  cName :: string
  cImage :: string
  cEnv :: "envVar list"
  cArgs :: "string list"
  cVolumeMounts :: "volumeMount list"
  cResources :: resourceRequirements
  cSecurityContext :: "securityContext option"

record pod =
  podName :: string
  podNamespace :: string
  podAnnotations :: "strmap option"
  Volumes :: "volume list"
  InitContainers :: "container list"

record configMap =
  cmName :: string
  cmData :: strmap

section \<open>The volume binder (the loop of Execute over pod.Spec.Volumes)\<close>

text \<open>
  The accumulators are \<open>podVolumes\<close>, \<open>podVolumeMounts\<close> and \<open>podMountPoints\<close>; a
  volume whose claim pointer is \<open>nil\<close> is skipped by \<open>continue\<close>.
\<close>

fun bindVolumes ::
  "volume list \<Rightarrow> volume list \<times> volumeMount list \<times> string list
     \<Rightarrow> volume list \<times> volumeMount list \<times> string list" where
  "bindVolumes [] acc = acc"
| "bindVolumes (v # vs) (podVolumes, podVolumeMounts, podMountPoints) =
     (case PersistentVolumeClaim v of
        None \<Rightarrow> bindVolumes vs (podVolumes, podVolumeMounts, podMountPoints)
      | Some pvc \<Rightarrow>
          (let claimName = ClaimName pvc;
               mountPath = ''/'' @ claimName
           in bindVolumes vs
                (podVolumes @
                   [\<lparr>vName = vName v,
                     PersistentVolumeClaim =
                       Some \<lparr>ClaimName = claimName, pvcReadOnly = False\<rparr>,
                     vOtherSource = None\<rparr>],
                 podVolumeMounts @
                   [\<lparr>vmName = vName v, vmMountPath = mountPath, vmReadOnly = False\<rparr>],
                 podMountPoints @ [mountPath])))"

section \<open>The merge of the injected container into the init-container list\<close>

definition mergeInitContainer :: "string \<Rightarrow> container \<Rightarrow> container list \<Rightarrow> container list" where
  "mergeInitContainer initcontainerName initContainer cs =
     (if length cs = 0 \<or> cName (cs ! 0) \<noteq> initcontainerName
      then [initContainer] @ cs
      else cs[0 := initContainer])"

section \<open>The standard library's number and boolean parsers\<close>

text \<open>
  \<open>strconv.ParseUint(s, 10, 64)\<close>: the digits are read left to right; a character that
  is not a decimal digit is a syntax error, a value beyond 64 bits a range error,
  whichever comes first.
\<close>

datatype numError = ErrSyntax | ErrRange

definition isDigit :: "char \<Rightarrow> bool" where
  "isDigit c = (c \<in> set ''0123456789'')"

definition digitVal :: "char \<Rightarrow> int" where
  "digitVal c = of_char c - 48"

definition maxUint64 :: int where
  "maxUint64 = 18446744073709551615"

fun parseUintLoop :: "string \<Rightarrow> int \<Rightarrow> numError + int" where
  "parseUintLoop [] n = Inr n"
| "parseUintLoop (c # cs) n =
     (if \<not> isDigit c then Inl ErrSyntax
      else if n \<ge> maxUint64 div 10 + 1 then Inl ErrRange
      else (let n1 = n * 10 + digitVal c
            in if n1 > maxUint64 then Inl ErrRange else parseUintLoop cs n1))"

definition ParseUint :: "string \<Rightarrow> numError + int" where
  "ParseUint s = (if s = [] then Inl ErrSyntax else parseUintLoop s 0)"

text \<open>\<open>strconv.ParseInt(s, 10, 64)\<close>: an optional sign, then \<open>ParseUint\<close>, then the int64 range.\<close>

definition ParseInt :: "string \<Rightarrow> numError + int" where
  "ParseInt s =
     (if s = [] then Inl ErrSyntax
      else
        (let neg = (hd s = CHR ''-'');
             s1 = (if hd s = CHR ''+'' \<or> hd s = CHR ''-'' then tl s else s)
         in case ParseUint s1 of
              Inl ErrSyntax \<Rightarrow> Inl ErrSyntax
            | r \<Rightarrow>
                (let un = (case r of Inr n \<Rightarrow> n | Inl _ \<Rightarrow> maxUint64);
                     cutoff = (9223372036854775808 :: int)
                 in if \<not> neg \<and> un \<ge> cutoff then Inl ErrRange
                    else if neg \<and> un > cutoff then Inl ErrRange
                    else Inr (if neg then - un else un))))"

definition ParseBool :: "string \<Rightarrow> numError + bool" where
  "ParseBool str =
     (if str \<in> set [''1'', ''t'', ''T'', ''true'', ''TRUE'', ''True''] then Inr True
      else if str \<in> set [''0'', ''f'', ''F'', ''false'', ''FALSE'', ''False''] then Inr False
      else Inl ErrSyntax)"

section \<open>The quantity parser of the Kubernetes API machinery\<close>

text \<open>
  \<open>resource.ParseQuantity\<close>, \<open>Quantity.Cmp\<close>, \<open>Quantity.AsDec\<close> and
  \<open>resource.MustParse\<close> belong to the dependency k8s.io/apimachinery (v0.20.4 in
  go.mod), not to the plugin. They are modelled here after that version of the library,
  because the plugin compares parsed quantities as Go structs, so that the representation
  a string parses to, and what a comparison does to it, decide what the plugin does.

  The literal \<open>0\<close> is parsed by a case of its own, whose result keeps the string as
  the cached canonical form; every other string goes through \<open>parseQuantityString\<close>.

  \<open>parseQuantityString\<close> splits a string into sign, value text, numerator digits,
  denominator digits and suffix: a sign, leading zeros (dropped), digits, an optional
  point with digits, then the suffix letters with an optional signed exponent.
\<close>

definition suffixPart ::
  "bool \<Rightarrow> string \<Rightarrow> string \<Rightarrow> string \<Rightarrow> string
     \<Rightarrow> error + (bool \<times> string \<times> string \<times> string \<times> string)" where
  "suffixPart positive val num denom rest =
     (let r1 = dropWhile (\<lambda>c. c \<in> set ''eEinumkKMGTP'') rest
      in if r1 = [] then Inr (positive, val, num, denom, rest)
         else
           (let r2 = (if hd r1 = CHR ''-'' \<or> hd r1 = CHR ''+'' then tl r1 else r1)
            in if dropWhile isDigit r2 = [] then Inr (positive, val, num, denom, rest)
               else Inl ErrFormatWrong))"

definition parseQuantityString ::
  "string \<Rightarrow> error + (bool \<times> string \<times> string \<times> string \<times> string)" where
  "parseQuantityString str =
     (let positive = (case str of [] \<Rightarrow> True | c # _ \<Rightarrow> c \<noteq> CHR ''-'');
          s1 = (case str of [] \<Rightarrow> []
                | c # cs \<Rightarrow> if c = CHR ''-'' \<or> c = CHR ''+'' then cs else str);
          s2 = dropWhile (\<lambda>c. c = CHR ''0'') s1
      in if s2 = [] then Inr (positive, ''0'', ''0'', [], [])
         else
           (let digits = takeWhile isDigit s2;
                s3 = dropWhile isDigit s2
            in if s3 = [] then Inr (positive, str, digits, [], [])
               else
                 (let num = (if length digits = 0 then ''0'' else digits)
                  in if hd s3 = CHR ''.''
                     then
                       (let denom = takeWhile isDigit (tl s3);
                            s4 = dropWhile isDigit (tl s3)
                        in if s4 = [] then Inr (positive, str, num, denom, [])
                           else suffixPart positive (take (length str - length s4) str)
                                  num denom s4)
                     else suffixPart positive (take (length str - length s3) str)
                            num [] s3)))"

text \<open>Conversion to int32, as Go's \<open>int32(x)\<close> does it.\<close>

definition wrap32 :: "int \<Rightarrow> int" where
  "wrap32 x = (x + 2147483648) mod 4294967296 - 2147483648"

text \<open>The suffix table: base, exponent and format of a suffix, \<open>None\<close> when it is unknown.\<close>

definition interpretSuffix :: "string \<Rightarrow> (int \<times> int \<times> format) option" where
  "interpretSuffix suf =
     (case map_of
             [([], 0), (''n'', -9), (''u'', -6), (''m'', -3), (''k'', 3), (''M'', 6),
              (''G'', 9), (''T'', 12), (''P'', 15), (''E'', 18 :: int)] suf of
        Some e \<Rightarrow> Some (10, e, DecimalSI)
      | None \<Rightarrow>
          (case map_of
                  [(''Ki'', 10), (''Mi'', 20), (''Gi'', 30), (''Ti'', 40), (''Pi'', 50),
                   (''Ei'', 60 :: int)] suf of
             Some e \<Rightarrow> Some (2, e, BinarySI)
           | None \<Rightarrow>
               (if length suf > 1 \<and> (hd suf = CHR ''E'' \<or> hd suf = CHR ''e'')
                then (case ParseInt (tl suf) of
                        Inl _ \<Rightarrow> None
                      | Inr parsed \<Rightarrow> Some (10, wrap32 parsed, DecimalExponent))
                else None)))"

text \<open>
  \<open>int64Multiply\<close> of a non-negative value with the mantissa: \<open>None\<close> when the product
  does not fit into an int64.
\<close>

definition int64Multiply :: "int \<Rightarrow> int \<Rightarrow> int option" where
  "int64Multiply a b = (if a * b \<le> 9223372036854775807 then Some (a * b) else None)"

definition HasSuffix :: "string \<Rightarrow> string \<Rightarrow> bool" where
  "HasSuffix s suf = (length s \<ge> length suf \<and> drop (length s - length suf) s = suf)"

text \<open>
  The int64 path of \<open>ParseQuantity\<close>: \<open>None\<close> when the string has to go through the
  arbitrary-precision path instead.
\<close>

definition fastPath ::
  "string \<Rightarrow> bool \<Rightarrow> string \<Rightarrow> string \<Rightarrow> format \<Rightarrow> int \<Rightarrow> int \<Rightarrow> int \<Rightarrow> int
     \<Rightarrow> (error + quantity) option" where
  "fastPath str positive num denom fmt exponent precision scale0 mantissa =
     (if precision \<ge> 0
      then
        (let scale = wrap32 (scale0 - int (length denom))
         in if scale \<ge> -9
            then
              (let shifted = num @ denom
               in case ParseInt shifted of
                    Inl _ \<Rightarrow> Some (Inl ErrNumeric)
                  | Inr val \<Rightarrow>
                      (case int64Multiply val mantissa of
                         None \<Rightarrow> None
                       | Some r \<Rightarrow>
                           (let result = (if positive then r else - r);
                                canonical =
                                  (case fmt of
                                     BinarySI \<Rightarrow> exponent mod 10 = 0 \<and> val mod 8 \<noteq> 0
                                   | _ \<Rightarrow> scale mod 3 = 0 \<and> \<not> HasSuffix shifted ''000''
                                          \<and> hd shifted \<noteq> CHR ''0'')
                            in Some (Inr \<lparr>i_value = result, i_scale = scale, d_Dec = None,
                                          s_cache = (if canonical then str else []),
                                          Format = fmt\<rparr>))))
            else None)
      else None)"

text \<open>
  The arbitrary-precision path. A decimal \<open>(u, s)\<close> stands for \<open>u / 10 ^ s\<close>.
  \<open>decSetString\<close> reads the value text (a sign, digits, a point, digits) and fails when it
  has no digit.
\<close>

definition decimalOf :: "string \<Rightarrow> int" where
  "decimalOf ds = fold (\<lambda>c n. n * 10 + digitVal c) ds 0"

definition decSetString :: "string \<Rightarrow> dec option" where
  "decSetString val =
     (let neg = (val \<noteq> [] \<and> hd val = CHR ''-'');
          body = (if val \<noteq> [] \<and> (hd val = CHR ''-'' \<or> hd val = CHR ''+'') then tl val else val);
          intpart = takeWhile isDigit body;
          rest = dropWhile isDigit body;
          frac = (if rest \<noteq> [] \<and> hd rest = CHR ''.'' then tl rest else [])
      in if (rest \<noteq> [] \<and> hd rest \<noteq> CHR ''.'') \<or> \<not> list_all isDigit frac
            \<or> intpart @ frac = []
         then None
         else Some ((if neg then - 1 else 1) * decimalOf (intpart @ frac), int (length frac)))"

definition decCmp :: "dec \<Rightarrow> dec \<Rightarrow> int" where
  "decCmp a b =
     (let m = max (snd a) (snd b);
          x = fst a * 10 ^ nat (m - snd a);
          y = fst b * 10 ^ nat (m - snd b)
      in if x < y then - 1 else if x = y then 0 else 1)"

text \<open>Rounding a non-negative decimal away from zero to \<open>s\<close> decimal places.\<close>

definition decRoundUp :: "dec \<Rightarrow> int \<Rightarrow> dec" where
  "decRoundUp a s =
     (if snd a \<le> s then (fst a * 10 ^ nat (s - snd a), s)
      else (let p = 10 ^ nat (snd a - s) in ((fst a + p - 1) div p, s)))"

definition slowPath :: "string \<Rightarrow> int \<Rightarrow> int \<Rightarrow> format \<Rightarrow> error + quantity" where
  "slowPath val base exponent fmt =
     (case decSetString val of
        None \<Rightarrow> Inl ErrNumeric
      | Some amount0 \<Rightarrow>
          (let amount1 =
                 (if base = 10 then (fst amount0, wrap32 (snd amount0 - exponent))
                  else if base = 2 then (fst amount0 * 2 ^ nat exponent, snd amount0)
                  else amount0);
               negative = (fst amount1 < 0);
               amount2 = (if negative then (- fst amount1, snd amount1) else amount1);
               amount3 = (if fst amount2 \<noteq> 0 then decRoundUp amount2 9 else amount2);
               amount4 =
                 (if fmt = BinarySI \<and> decCmp amount3 (9223372036854775807, 0) > 0
                  then (9223372036854775807, 0) else amount3);
               fmt1 =
                 (if fmt = BinarySI \<and> decCmp amount4 (1, 0) < 0 \<and> decCmp amount4 (0, 0) > 0
                  then DecimalSI else fmt);
               amount5 = (if negative then (- fst amount4, snd amount4) else amount4)
           in Inr \<lparr>i_value = 0, i_scale = 0, d_Dec = Some amount5, s_cache = [],
                   Format = fmt1\<rparr>))"

definition ParseQuantity :: "string \<Rightarrow> error + quantity" where
  "ParseQuantity str =
     (if length str = 0 then Inl ErrFormatWrong
      else if str = ''0''
      then Inr \<lparr>i_value = 0, i_scale = 0, d_Dec = None, s_cache = str, Format = DecimalSI\<rparr>
      else
        (case parseQuantityString str of
           Inl err \<Rightarrow> Inl err
         | Inr (positive, val, num, denom, suf) \<Rightarrow>
             (case interpretSuffix suf of
                None \<Rightarrow> Inl ErrSuffix
              | Some (base, exponent, fmt) \<Rightarrow>
                  (let (precision, scale, mantissa) =
                         (case fmt of
                            BinarySI \<Rightarrow>
                              (if exponent \<ge> 0 \<and> length denom = 0
                               then (15 - int (length num) - exponent * 3 div 10 - 1, 0,
                                     2 ^ nat exponent)
                               else (- 1, 0, 1))
                          | _ \<Rightarrow> (18 - int (length num + length denom), exponent, 1))
                   in case fastPath str positive num denom fmt exponent precision scale
                             mantissa of
                        Some r \<Rightarrow> r
                      | None \<Rightarrow> slowPath val base exponent fmt))))"

text \<open>
  \<open>Quantity.AsDec\<close> has a pointer receiver and promotes the quantity in place: a
  quantity in int64 form gets the decimal \<open>(value, - scale)\<close> behind its pointer and its
  int64 amount is reset. The model returns the decimal and the quantity after the call.
\<close>

definition AsDec :: "quantity \<Rightarrow> dec \<times> quantity" where
  "AsDec q =
     (case d_Dec q of
        Some a \<Rightarrow> (a, q)
      | None \<Rightarrow>
          ((i_value q, - i_scale q),
           q\<lparr>i_value := 0, i_scale := 0, d_Dec := Some (i_value q, - i_scale q)\<rparr>))"

text \<open>
  \<open>q.Cmp(y)\<close> compares the two amounts exactly: \<open>-1\<close>, \<open>0\<close> or \<open>1\<close>. The receiver is a
  pointer and the argument a copy. When both are in int64 form the int64 amounts are
  compared, exactly as well, and nothing changes; otherwise both go through \<open>AsDec\<close>,
  which promotes the receiver. The model returns the result and the receiver after the
  call.
\<close>

definition Cmp :: "quantity \<Rightarrow> quantity \<Rightarrow> int \<times> quantity" where
  "Cmp q y =
     (if d_Dec q = None \<and> d_Dec y = None
      then (decCmp (i_value q, - i_scale q) (i_value y, - i_scale y), q)
      else (case AsDec q of (a, q1) \<Rightarrow> (decCmp a (fst (AsDec y)), q1)))"

text \<open>
  \<open>resource.MustParse("0")\<close>, the value the plugin calls \<open>unbounded\<close>: the parse of
  the literal \<open>0\<close>, which carries that literal as its cached string.
\<close>

definition unbounded :: quantity where
  "unbounded =
     \<lparr>i_value = 0, i_scale = 0, d_Dec = None, s_cache = ''0'', Format = DecimalSI\<rparr>"

section \<open>util.ParseResourceRequirements\<close>

text \<open>
  The function returns the requirements built so far together with the error. The
  comparisons with \<open>unbounded\<close> are Go's struct comparisons \<open>!=\<close>: all fields of the two
  quantities are compared, the pointer of the arbitrary-precision amount included
  (\<open>unbounded\<close> has \<open>nil\<close> there, a quantity of that path never has). A request is
  compared with its limit only when the limit is not \<open>unbounded\<close> (the \<open>&&\<close> of the
  source), and the request after that call is the one tested and stored afterwards.
\<close>

definition ParseResourceRequirements ::
  "string \<Rightarrow> string \<Rightarrow> string \<Rightarrow> string \<Rightarrow> resourceRequirements \<times> error option" where
  \<open>ParseResourceRequirements cpuRequest memRequest cpuLimit memLimit =
     (let resources = \<lparr>Limits = Map.empty, Requests = Map.empty\<rparr>
      in case ParseQuantity cpuRequest of
           Inl err \<Rightarrow>
             (resources, Some (Wrapf err ''couldn't parse CPU request "%s"'' [ArgStr cpuRequest]))
         | Inr parsedCPURequest \<Rightarrow>
        (case ParseQuantity memRequest of
           Inl err \<Rightarrow>
             (resources,
              Some (Wrapf err ''couldn't parse memory request "%s"'' [ArgStr memRequest]))
         | Inr parsedMemRequest \<Rightarrow>
        (case ParseQuantity cpuLimit of
           Inl err \<Rightarrow>
             (resources, Some (Wrapf err ''couldn't parse CPU limit "%s"'' [ArgStr cpuLimit]))
         | Inr parsedCPULimit \<Rightarrow>
        (case ParseQuantity memLimit of
           Inl err \<Rightarrow>
             (resources, Some (Wrapf err ''couldn't parse memory limit "%s"'' [ArgStr memLimit]))
         | Inr parsedMemLimit \<Rightarrow>
        (case (if parsedCPULimit \<noteq> unbounded then Cmp parsedCPURequest parsedCPULimit
               else (0, parsedCPURequest)) of
           (cpuCmp, parsedCPURequest1) \<Rightarrow>
             if parsedCPULimit \<noteq> unbounded \<and> cpuCmp > 0
             then (resources,
                   Some (WithStack
                     (Errorf ''CPU request "%s" must be less than or equal to CPU limit "%s"''
                        [ArgStr cpuRequest, ArgStr cpuLimit])))
             else
        (case (if parsedMemLimit \<noteq> unbounded then Cmp parsedMemRequest parsedMemLimit
               else (0, parsedMemRequest)) of
           (memCmp, parsedMemRequest1) \<Rightarrow>
             if parsedMemLimit \<noteq> unbounded \<and> memCmp > 0
             then (resources,
                   Some (WithStack
                     (Errorf
                        ''Memory request "%s" must be less than or equal to Memory limit "%s"''
                        [ArgStr memRequest, ArgStr memLimit])))
             else
               (let resources1 =
                      (if parsedCPURequest1 \<noteq> unbounded
                       then resources\<lparr>Requests :=
                              (Requests resources)(ResourceCPU \<mapsto> parsedCPURequest1)\<rparr>
                       else resources);
                    resources2 =
                      (if parsedMemRequest1 \<noteq> unbounded
                       then resources1\<lparr>Requests :=
                              (Requests resources1)(ResourceMemory \<mapsto> parsedMemRequest1)\<rparr>
                       else resources1);
                    resources3 =
                      (if parsedCPULimit \<noteq> unbounded
                       then resources2\<lparr>Limits :=
                              (Limits resources2)(ResourceCPU \<mapsto> parsedCPULimit)\<rparr>
                       else resources2);
                    resources4 =
                      (if parsedMemLimit \<noteq> unbounded
                       then resources3\<lparr>Limits :=
                              (Limits resources3)(ResourceMemory \<mapsto> parsedMemLimit)\<rparr>
                       else resources3)
                in (resources4, None))))))))\<close>

section \<open>util.ParseSecurityContext\<close>

text \<open>On an error the context built so far is returned with it.\<close>

definition ParseSecurityContext ::
  "string \<Rightarrow> string \<Rightarrow> string \<Rightarrow> securityContext \<times> error option" where
  \<open>ParseSecurityContext runAsUser runAsGroup allowPrivilegeEscalation =
     (let securityContext =
            \<lparr>RunAsUser = None, RunAsGroup = None, AllowPrivilegeEscalation = None\<rparr>;
          step1 =
            (if runAsUser \<noteq> []
             then (case ParseInt runAsUser of
                     Inl _ \<Rightarrow>
                       Inl (WithStack
                         (Errorf ''Security context runAsUser "%s" is not a number''
                            [ArgStr runAsUser]))
                   | Inr parsedRunAsUser \<Rightarrow>
                       Inr (securityContext\<lparr>RunAsUser := Some parsedRunAsUser\<rparr>))
             else Inr securityContext)
      in case step1 of
           Inl err \<Rightarrow> (securityContext, Some err)
         | Inr securityContext1 \<Rightarrow>
             (let step2 =
                    (if runAsGroup \<noteq> []
                     then (case ParseInt runAsGroup of
                             Inl _ \<Rightarrow>
                               Inl (WithStack
                                 (Errorf ''Security context runAsGroup "%s" is not a number''
                                    [ArgStr runAsGroup]))
                           | Inr parsedRunAsGroup \<Rightarrow>
                               Inr (securityContext1\<lparr>RunAsGroup := Some parsedRunAsGroup\<rparr>))
                     else Inr securityContext1)
              in case step2 of
                   Inl err \<Rightarrow> (securityContext1, Some err)
                 | Inr securityContext2 \<Rightarrow>
                     (if allowPrivilegeEscalation \<noteq> []
                      then (case ParseBool allowPrivilegeEscalation of
                              Inl _ \<Rightarrow>
                                (securityContext2,
                                 Some (WithStack
                                   (Errorf
                                      ''Security context allowPrivilegeEscalation "%s" is not a boolean''
                                      [ArgStr allowPrivilegeEscalation])))
                            | Inr parsedAllowPrivilegeEscalation \<Rightarrow>
                                (securityContext2\<lparr>AllowPrivilegeEscalation :=
                                   Some parsedAllowPrivilegeEscalation\<rparr>, None))
                      else (securityContext2, None))))\<close>

section \<open>util.GetPluginConfig\<close>

text \<open>
  The config-map client of one namespace is the function from a label selector to the
  result of its \<open>List\<close> call: the matching config maps, or the error of the query.
\<close>

type_synonym configMapInterface = "string \<Rightarrow> error + configMap list"

definition GetPluginConfig ::
  "string \<Rightarrow> string \<Rightarrow> configMapInterface \<Rightarrow> configMap option \<times> error option" where
  "GetPluginConfig kind name client =
     (let LabelSelector = ''velero.io/plugin-config,'' @ name @ ''='' @ kind
      in case client LabelSelector of
           Inl err \<Rightarrow> (None, Some (WithStack err))
         | Inr list_Items \<Rightarrow>
             if length list_Items = 0 then (None, None)
             else if length list_Items > 1
             then (let items = fold (\<lambda>item items. items @ [cmName item]) list_Items []
                   in (None,
                       Some (Errorf
                         ''found more than one ConfigMap matching label selector %q: %v''
                         [ArgStr LabelSelector, ArgStrs items])))
             else (Some (list_Items ! 0), None))"

section \<open>The restore action of the plugin\<close>

definition RestorePodActionPluginName :: string where
  "RestorePodActionPluginName = ''catalogicsoftware.com/offload-restore-pod-action-plugin''"

definition PluginKindRestoreItemAction :: string where
  "PluginKindRestoreItemAction = ''RestoreItemAction''"

record initcontainerConfig =
  clusterID :: string
  kubeMoverPodNamePrefix :: string
  kubeMoverImage :: string
  serverAddr :: string
  useTLS :: string
  cpuRequest :: string
  cpuLimit :: string
  memRequest :: string
  memLimit :: string
  runAsRoot :: string
  runAsGroup :: string
  allowPrivilegeEscalation :: string

text \<open>
  \<open>util.GetClients\<close> builds the cluster client from the ambient configuration; its
  result is the environment of the plugin: an error, or a client set, which gives the
  config-map client of a namespace.
\<close>

type_synonym clientset = "string \<Rightarrow> configMapInterface"

text \<open>
  \<open>newInitcontainerConfig\<close>. The struct literal sets eight fields from the record's data
  and leaves the four resource strings at Go's zero value, the empty string; each of them
  is then assigned only inside its \<open>if\<close>. \<open>GetPluginConfig\<close> may return \<open>nil, nil\<close>, and
  \<open>config.Data\<close> on that \<open>nil\<close> pointer panics.
\<close>

definition newInitcontainerConfig ::
  "error + clientset \<Rightarrow> (initcontainerConfig option \<times> error option) outcome" where
  "newInitcontainerConfig GetClients =
     (case GetClients of
        Inl err \<Rightarrow> Returns (None, Some err)
      | Inr client \<Rightarrow>
          (let configClientSet = client ''cloudcasa-io''
           in case GetPluginConfig PluginKindRestoreItemAction RestorePodActionPluginName
                     configClientSet of
                (_, Some err) \<Rightarrow> Returns (None, Some err)
              | (None, None) \<Rightarrow> Panic
              | (Some config, None) \<Rightarrow>
                  (let i = \<lparr>clusterID = lookupStr (cmData config) ''clusterID'',
                            kubeMoverPodNamePrefix =
                              lookupStr (cmData config) ''kubeMoverPodNamePrefix'',
                            kubeMoverImage = lookupStr (cmData config) ''kubeMoverImage'',
                            serverAddr = lookupStr (cmData config) ''serverAddr'',
                            useTLS = lookupStr (cmData config) ''useTLS'',
                            cpuRequest = [],
                            cpuLimit = [],
                            memRequest = [],
                            memLimit = [],
                            runAsRoot = lookupStr (cmData config) ''runAsRoot'',
                            runAsGroup = lookupStr (cmData config) ''runAsGroup'',
                            allowPrivilegeEscalation =
                              lookupStr (cmData config) ''allowPrivilegeEscalation''\<rparr>;
                       i1 = (if lookupStr (cmData config) ''cpuRequest'' = []
                             then i\<lparr>cpuRequest := ''100m''\<rparr> else i);
                       i2 = (if lookupStr (cmData config) ''cpuLimit'' = []
                             then i1\<lparr>cpuLimit := ''128Mi''\<rparr> else i1);
                       i3 = (if lookupStr (cmData config) ''memRequest'' = []
                             then i2\<lparr>memRequest := ''100m''\<rparr> else i2);
                       i4 = (if lookupStr (cmData config) ''memLimit'' = []
                             then i3\<lparr>memLimit := ''128Mi''\<rparr> else i3)
                   in Returns (Some i4, None))))"

text \<open>
  The item of a restore is a generic object. Three kinds are told apart: one whose content
  decodes as a Pod, one with object metadata whose content does not decode as a Pod, and
  one without accessible object metadata.
\<close>

datatype item = PodObject pod | OtherObject "strmap option" | Opaque

definition Accessor :: "item \<Rightarrow> error + strmap option" where
  "Accessor it =
     (case it of
        PodObject p \<Rightarrow> Inr (podAnnotations p)
      | OtherObject a \<Rightarrow> Inr a
      | Opaque \<Rightarrow> Inl (External ''object does not implement the Object interfaces''))"

definition SetAnnotations :: "item \<Rightarrow> strmap \<Rightarrow> item" where
  "SetAnnotations it annotations =
     (case it of
        PodObject p \<Rightarrow> PodObject (p\<lparr>podAnnotations := Some annotations\<rparr>)
      | OtherObject a \<Rightarrow> OtherObject (Some annotations)
      | Opaque \<Rightarrow> Opaque)"

definition FromUnstructured :: "item \<Rightarrow> error + pod" where
  "FromUnstructured it =
     (case it of
        PodObject p \<Rightarrow> Inr p
      | _ \<Rightarrow> Inl (External ''cannot convert the object to a Pod''))"

definition ToUnstructured :: "pod \<Rightarrow> error + item" where
  "ToUnstructured p = Inr (PodObject p)"

record restoreItemActionExecuteInput =
  Item :: item
  Restore_Annotations :: "strmap option"

record restoreItemActionExecuteOutput =
  UpdatedItem :: "item option"

definition NewRestoreItemActionExecuteOutput :: "item \<Rightarrow> restoreItemActionExecuteOutput" where
  "NewRestoreItemActionExecuteOutput it = \<lparr>UpdatedItem = Some it\<rparr>"

text \<open>
  The container that Execute builds from the configuration, the Pod's name, the mounts and
  mount points of the volume binder, and the results of the two parsers.
\<close>

definition buildInitContainer ::
  "initcontainerConfig \<Rightarrow> string \<Rightarrow> volumeMount list \<Rightarrow> string list \<Rightarrow> resourceRequirements
     \<Rightarrow> securityContext \<Rightarrow> container" where
  "buildInitContainer initContainerConfig initcontainerName podVolumeMounts podMountPoints
     resourceReqs securityContext =
     \<lparr>cName = initcontainerName,
      cImage = kubeMoverImage initContainerConfig,
      cEnv =
        [\<lparr>evName = ''AMDS_CLUSTER_ID'', evValue = clusterID initContainerConfig,
          evValueFrom = None\<rparr>,
         \<lparr>evName = ''POD_NAMESPACE'', evValue = [],
          evValueFrom =
            Some (EnvVarSource (Some (ObjectFieldSelector ''metadata.namespace'')))\<rparr>,
         \<lparr>evName = ''POD_NAME'', evValue = [],
          evValueFrom = Some (EnvVarSource (Some (ObjectFieldSelector ''metadata.name'')))\<rparr>],
      cArgs =
        [''/usr/local/bin/kubemover'',
         ''--server_addr'', serverAddr initContainerConfig,
         ''--tls'', useTLS initContainerConfig] @ podMountPoints,
      cVolumeMounts = podVolumeMounts,
      cResources = resourceReqs,
      cSecurityContext = Some securityContext\<rparr>"

text \<open>
  The part of \<open>Execute\<close> from the two parser calls to the merge: the errors of
  \<open>ParseResourceRequirements\<close> and \<open>ParseSecurityContext\<close> are assigned to \<open>err\<close> and
  never tested, so only the returned values are used.
\<close>

definition injectInitContainer ::
  "initcontainerConfig \<Rightarrow> pod \<Rightarrow> volumeMount list \<Rightarrow> string list \<Rightarrow> pod" where
  "injectInitContainer initContainerConfig pod podVolumeMounts podMountPoints =
     (case ParseResourceRequirements
             (cpuRequest initContainerConfig) (memRequest initContainerConfig)
             (cpuLimit initContainerConfig) (memLimit initContainerConfig) of
        (resourceReqs, err1) \<Rightarrow>
     (case ParseSecurityContext
             (runAsRoot initContainerConfig) (runAsGroup initContainerConfig)
             (allowPrivilegeEscalation initContainerConfig) of
        (securityContext, err2) \<Rightarrow>
          (let initcontainerName = kubeMoverPodNamePrefix initContainerConfig @ podName pod;
               initContainer =
                 buildInitContainer initContainerConfig initcontainerName podVolumeMounts
                   podMountPoints resourceReqs securityContext
           in pod\<lparr>InitContainers :=
                    mergeInitContainer initcontainerName initContainer (InitContainers pod)\<rparr>)))"

text \<open>
  \<open>Execute\<close>. The error of \<open>newInitcontainerConfig\<close> is not tested either; a \<open>nil\<close>
  configuration is dereferenced by \<open>initContainerConfig.cpuRequest\<close>, which panics. The
  presence annotation is written to the item before it is decoded, so the decoded Pod
  carries it. The source writes it into the caller's item in place; the model gives the
  returned values only.
\<close>

definition Execute ::
  "error + clientset \<Rightarrow> restoreItemActionExecuteInput
     \<Rightarrow> (restoreItemActionExecuteOutput option \<times> error option) outcome" where
  "Execute GetClients input =
     (case Restore_Annotations input of
        None \<Rightarrow> Returns (Some (NewRestoreItemActionExecuteOutput (Item input)), None)
      | Some restoreObjectAnnotations \<Rightarrow>
          if restoreObjectAnnotations ''cloudcasa-restore-from-offload'' = None
          then Returns (Some (NewRestoreItemActionExecuteOutput (Item input)), None)
          else
            (case Accessor (Item input) of
               Inl err \<Rightarrow> Returns (Some \<lparr>UpdatedItem = None\<rparr>, Some err)
             | Inr metadataAnnotations \<Rightarrow>
                 (let annotations0 =
                        (case metadataAnnotations of None \<Rightarrow> Map.empty | Some a \<Rightarrow> a);
                      annotations =
                        annotations0
                          (''catalogicsoftware.com/offload-restore-pod-action-plugin'' \<mapsto> ''1'');
                      item1 = SetAnnotations (Item input) annotations
                  in case FromUnstructured item1 of
                       Inl err \<Rightarrow>
                         Returns (None,
                           Some (Wrapf err ''Unable to convert unstructured item to pod'' []))
                     | Inr pod \<Rightarrow>
                         (case bindVolumes (Volumes pod) ([], [], []) of
                            (podVolumes, podVolumeMounts, podMountPoints) \<Rightarrow>
                         (case newInitcontainerConfig GetClients of
                            Panic \<Rightarrow> Panic
                          | Returns (None, err) \<Rightarrow> Panic
                          | Returns (Some initContainerConfig, err) \<Rightarrow>
                              (let pod1 = injectInitContainer initContainerConfig pod
                                            podVolumeMounts podMountPoints
                               in case ToUnstructured pod1 of
                                    Inl err \<Rightarrow>
                                      Returns (None,
                                        Some (Wrapf err
                                          ''unable to convert pod to runtime.Unstructured'' []))
                                  | Inr res \<Rightarrow>
                                      Returns
                                        (Some (NewRestoreItemActionExecuteOutput res),
                                         None)))))))"

section \<open>Notions used to state the properties\<close>

text \<open>
  The bindings of a volume list: the volume name and the claim name of each volume that
  references a persistent-volume claim, in the order of the list; and the volume, the
  mount and the mount path that belong to a binding.
\<close>

definition volumeBindings :: "volume list \<Rightarrow> (string \<times> string) list" where
  "volumeBindings vs =
     List.map_filter
       (\<lambda>v. map_option (\<lambda>pvc. (vName v, ClaimName pvc)) (PersistentVolumeClaim v)) vs"

definition bindingVolume :: "string \<times> string \<Rightarrow> volume" where
  "bindingVolume b =
     \<lparr>vName = fst b,
      PersistentVolumeClaim = Some \<lparr>ClaimName = snd b, pvcReadOnly = False\<rparr>,
      vOtherSource = None\<rparr>"

definition bindingMount :: "string \<times> string \<Rightarrow> volumeMount" where
  "bindingMount b = \<lparr>vmName = fst b, vmMountPath = ''/'' @ snd b, vmReadOnly = False\<rparr>"

definition bindingPath :: "string \<times> string \<Rightarrow> string" where
  "bindingPath b = ''/'' @ snd b"

definition noResources :: resourceRequirements where
  "noResources = \<lparr>Limits = Map.empty, Requests = Map.empty\<rparr>"

text \<open>
  The request as ParseResourceRequirements holds it after the check against its limit.
\<close>

definition afterCheck :: "quantity \<Rightarrow> quantity \<Rightarrow> quantity" where
  "afterCheck request limit = (if limit \<noteq> unbounded then snd (Cmp request limit) else request)"

definition emptySecurityContext :: securityContext where
  "emptySecurityContext = \<lparr>RunAsUser = None, RunAsGroup = None, AllowPrivilegeEscalation = None\<rparr>"

text \<open>The mutation gate: the restore has annotations and the marker key is among them.\<close>

definition mutateGate :: "restoreItemActionExecuteInput \<Rightarrow> bool" where
  "mutateGate input =
     (case Restore_Annotations input of
        None \<Rightarrow> False
      | Some a \<Rightarrow> a ''cloudcasa-restore-from-offload'' \<noteq> None)"

definition presenceKey :: string where
  "presenceKey = ''catalogicsoftware.com/offload-restore-pod-action-plugin''"

text \<open>A Pod with the presence annotation set, its other annotations kept.\<close>

definition tagged :: "pod \<Rightarrow> pod" where
  "tagged p =
     p\<lparr>podAnnotations :=
         Some ((case podAnnotations p of None \<Rightarrow> Map.empty | Some a \<Rightarrow> a)
                 (presenceKey \<mapsto> ''1''))\<rparr>"

text \<open>
  The container that Execute builds for a Pod under a configuration: the name is the
  prefix followed by the Pod's name, the mounts and mount points are those of the Pod's
  bindings, and the requirements and the security context are the values of the two
  parsers.
\<close>

definition builtContainer :: "initcontainerConfig \<Rightarrow> pod \<Rightarrow> container" where
  "builtContainer cfg p =
     buildInitContainer cfg (kubeMoverPodNamePrefix cfg @ podName p)
       (map bindingMount (volumeBindings (Volumes p)))
       (map bindingPath (volumeBindings (Volumes p)))
       (fst (ParseResourceRequirements (cpuRequest cfg) (memRequest cfg) (cpuLimit cfg)
               (memLimit cfg)))
       (fst (ParseSecurityContext (runAsRoot cfg) (runAsGroup cfg)
               (allowPrivilegeEscalation cfg)))"

subsection \<open>Concrete inputs\<close>

text \<open>The parse of \<open>00\<close>: zero, scale zero, and no cached string.\<close>

definition q00 :: quantity where
  "q00 = \<lparr>i_value = 0, i_scale = 0, d_Dec = None, s_cache = [], Format = DecimalSI\<rparr>"

definition q0m :: quantity where
  "q0m = \<lparr>i_value = 0, i_scale = - 3, d_Dec = None, s_cache = [], Format = DecimalSI\<rparr>"

definition q0Mi :: quantity where
  "q0Mi = \<lparr>i_value = 0, i_scale = 0, d_Dec = None, s_cache = [], Format = BinarySI\<rparr>"

definition q100m :: quantity where
  "q100m = \<lparr>i_value = 100, i_scale = - 3, d_Dec = None, s_cache = ''100m'', Format = DecimalSI\<rparr>"

definition q200m :: quantity where
  "q200m = \<lparr>i_value = 200, i_scale = - 3, d_Dec = None, s_cache = ''200m'', Format = DecimalSI\<rparr>"

definition q128Mi :: quantity where
  "q128Mi =
     \<lparr>i_value = 134217728, i_scale = 0, d_Dec = None, s_cache = [], Format = BinarySI\<rparr>"

text \<open>
  The parse of \<open>1.5Gi\<close>, which takes the arbitrary-precision path, and the parse of
  \<open>0\<close> after its promotion by \<open>AsDec\<close>, which keeps the cached string.
\<close>

definition q1_5Gi :: quantity where
  "q1_5Gi =
     \<lparr>i_value = 0, i_scale = 0, d_Dec = Some (1610612736000000000, 9), s_cache = [],
      Format = BinarySI\<rparr>"

definition promotedZero :: quantity where
  "promotedZero =
     \<lparr>i_value = 0, i_scale = 0, d_Dec = Some (0, 0), s_cache = ''0'', Format = DecimalSI\<rparr>"

text \<open>
  A cluster whose namespace \<open>cloudcasa-io\<close> holds the given config maps under the
  plugin's label selector, and nothing else.
\<close>

definition pluginSelector :: string where
  "pluginSelector =
     ''velero.io/plugin-config,catalogicsoftware.com/offload-restore-pod-action-plugin=RestoreItemAction''"

definition clusterWith :: "configMap list \<Rightarrow> error + clientset" where
  "clusterWith cms =
     Inr (\<lambda>namespace selector.
            if namespace = ''cloudcasa-io'' \<and> selector = pluginSelector then Inr cms else Inr [])"

definition exampleConfigMap :: configMap where
  "exampleConfigMap =
     \<lparr>cmName = ''kubemover-config'',
      cmData = [''clusterID'' \<mapsto> ''c-1'', ''kubeMoverPodNamePrefix'' \<mapsto> ''km-'',
                ''kubeMoverImage'' \<mapsto> ''kubemover:1'', ''serverAddr'' \<mapsto> ''amds:443'',
                ''useTLS'' \<mapsto> ''true'']\<rparr>"

definition exampleConfig :: initcontainerConfig where
  "exampleConfig =
     \<lparr>clusterID = ''c-1'', kubeMoverPodNamePrefix = ''km-'', kubeMoverImage = ''kubemover:1'',
      serverAddr = ''amds:443'', useTLS = ''true'', cpuRequest = ''100m'', cpuLimit = ''128Mi'',
      memRequest = ''100m'', memLimit = ''128Mi'', runAsRoot = [], runAsGroup = [],
      allowPrivilegeEscalation = []\<rparr>"

text \<open>A record with a malformed \<open>runAsRoot\<close>, and one that sets two resource strings.\<close>

definition malformedUserConfigMap :: configMap where
  "malformedUserConfigMap =
     \<lparr>cmName = ''kubemover-config'',
      cmData = [''kubeMoverPodNamePrefix'' \<mapsto> ''km-'', ''runAsRoot'' \<mapsto> ''abc'']\<rparr>"

definition malformedUserConfig :: initcontainerConfig where
  "malformedUserConfig =
     \<lparr>clusterID = [], kubeMoverPodNamePrefix = ''km-'', kubeMoverImage = [],
      serverAddr = [], useTLS = [], cpuRequest = ''100m'', cpuLimit = ''128Mi'',
      memRequest = ''100m'', memLimit = ''128Mi'', runAsRoot = ''abc'', runAsGroup = [],
      allowPrivilegeEscalation = []\<rparr>"

definition cpuConfigMap :: configMap where
  "cpuConfigMap =
     \<lparr>cmName = ''kubemover-config'',
      cmData = [''clusterID'' \<mapsto> ''c-1'', ''cpuRequest'' \<mapsto> ''200m'',
                ''cpuLimit'' \<mapsto> ''500m'']\<rparr>"

definition exampleVolumes :: "volume list" where
  "exampleVolumes =
     [\<lparr>vName = ''settings'', PersistentVolumeClaim = None, vOtherSource = Some ''configMap''\<rparr>,
      \<lparr>vName = ''d'', PersistentVolumeClaim = Some \<lparr>ClaimName = ''data'', pvcReadOnly = False\<rparr>,
       vOtherSource = None\<rparr>,
      \<lparr>vName = ''l'', PersistentVolumeClaim = Some \<lparr>ClaimName = ''logs'', pvcReadOnly = True\<rparr>,
       vOtherSource = None\<rparr>]"

definition examplePod :: pod where
  "examplePod =
     \<lparr>podName = ''web'', podNamespace = ''default'', podAnnotations = None,
      Volumes = exampleVolumes, InitContainers = []\<rparr>"

definition offloadRestore :: "strmap option" where
  "offloadRestore = Some [''cloudcasa-restore-from-offload'' \<mapsto> ''true'']"

definition freshContainer :: container where
  "freshContainer =
     buildInitContainer exampleConfig ''km-web'' [] [] noResources emptySecurityContext"

definition staleContainer :: container where
  "staleContainer = freshContainer\<lparr>cImage := ''kubemover:0''\<rparr>"

definition otherContainer :: container where
  "otherContainer = freshContainer\<lparr>cName := ''init-db'', cImage := ''busybox''\<rparr>"

text \<open>
  The example Pod with two init containers of its own, the second of which carries the
  name that the injected container will get.
\<close>

definition collidingPod :: pod where
  "collidingPod = examplePod\<lparr>InitContainers := [otherContainer, staleContainer]\<rparr>"

definition cpuConfig :: initcontainerConfig where
  "cpuConfig =
     \<lparr>clusterID = ''c-1'', kubeMoverPodNamePrefix = [], kubeMoverImage = [],
      serverAddr = [], useTLS = [], cpuRequest = [], cpuLimit = [],
      memRequest = ''100m'', memLimit = ''128Mi'', runAsRoot = [], runAsGroup = [],
      allowPrivilegeEscalation = []\<rparr>"

definition exampleInput :: restoreItemActionExecuteInput where
  "exampleInput = \<lparr>Item = PodObject examplePod, Restore_Annotations = offloadRestore\<rparr>"

section \<open>Properties of the volume binder\<close>

lemma volumeBindings_Nil: "volumeBindings [] = []"
  by (simp add: volumeBindings_def)

lemma volumeBindings_Cons:
  "volumeBindings (v # vs) =
     (case PersistentVolumeClaim v of
        None \<Rightarrow> volumeBindings vs
      | Some pvc \<Rightarrow> (vName v, ClaimName pvc) # volumeBindings vs)"
  by (simp add: volumeBindings_def split: option.splits)

text \<open>The loop with arbitrary accumulators appends one entry per binding to each of them.\<close>

lemma bindVolumes_acc:
  "bindVolumes vs (pv, pm, pp) =
     (pv @ map bindingVolume (volumeBindings vs),
      pm @ map bindingMount (volumeBindings vs),
      pp @ map bindingPath (volumeBindings vs))"
proof (induction vs arbitrary: pv pm pp)
  case Nil
  show ?case by (simp add: volumeBindings_Nil)
next
  case (Cons v vs)
  show ?case
  proof (cases "PersistentVolumeClaim v")
    case None
    then show ?thesis by (simp add: Cons.IH volumeBindings_Cons)
  next
    case (Some pvc)
    then show ?thesis
      by (simp add: Cons.IH volumeBindings_Cons bindingVolume_def bindingMount_def
          bindingPath_def Let_def)
  qed
qed

lemma length_volumeBindings:
  "length (volumeBindings vs) = length (filter (\<lambda>v. PersistentVolumeClaim v \<noteq> None) vs)"
  by (induction vs) (auto simp: volumeBindings_Nil volumeBindings_Cons split: option.splits)

lemma volumeBindings_example:
  "volumeBindings exampleVolumes = [(''d'', ''data''), (''l'', ''logs'')]"
  by (simp add: volumeBindings_def exampleVolumes_def)

text \<open>
  Claim C6. For every volume list the binder yields exactly one binding per volume that
  references a persistent-volume claim, in the order of the list, with the mount path
  \<open>/\<close> followed by the claim name; the other volumes are skipped, and the binder has no
  error result. The volumes config map, claim \<open>data\<close>, claim \<open>logs\<close> give two bindings
  with the mount paths \<open>/data\<close> and \<open>/logs\<close>.
\<close>

theorem bindVolumes_bindings:
  "bindVolumes vs ([], [], []) =
     (map bindingVolume (volumeBindings vs),
      map bindingMount (volumeBindings vs),
      map bindingPath (volumeBindings vs))
   \<and> length (volumeBindings vs) = length (filter (\<lambda>v. PersistentVolumeClaim v \<noteq> None) vs)
   \<and> map snd (volumeBindings vs) =
       map (\<lambda>v. case PersistentVolumeClaim v of None \<Rightarrow> [] | Some pvc \<Rightarrow> ClaimName pvc)
         (filter (\<lambda>v. PersistentVolumeClaim v \<noteq> None) vs)
   \<and> vmMountPath (bindingMount (n, c)) = ''/'' @ c
   \<and> bindingPath (n, c) = ''/'' @ c
   \<and> bindVolumes exampleVolumes ([], [], []) =
       ([\<lparr>vName = ''d'',
          PersistentVolumeClaim = Some \<lparr>ClaimName = ''data'', pvcReadOnly = False\<rparr>,
          vOtherSource = None\<rparr>,
         \<lparr>vName = ''l'',
          PersistentVolumeClaim = Some \<lparr>ClaimName = ''logs'', pvcReadOnly = False\<rparr>,
          vOtherSource = None\<rparr>],
        [\<lparr>vmName = ''d'', vmMountPath = ''/data'', vmReadOnly = False\<rparr>,
         \<lparr>vmName = ''l'', vmMountPath = ''/logs'', vmReadOnly = False\<rparr>],
        [''/data'', ''/logs''])"
proof -
  have a: "bindVolumes vs ([], [], []) =
     (map bindingVolume (volumeBindings vs),
      map bindingMount (volumeBindings vs),
      map bindingPath (volumeBindings vs))" for vs
    using bindVolumes_acc [of vs "[]" "[]" "[]"] by simp
  have b: "map snd (volumeBindings vs) =
       map (\<lambda>v. case PersistentVolumeClaim v of None \<Rightarrow> [] | Some pvc \<Rightarrow> ClaimName pvc)
         (filter (\<lambda>v. PersistentVolumeClaim v \<noteq> None) vs)"
    by (induction vs) (auto simp: volumeBindings_Nil volumeBindings_Cons split: option.splits)
  have c: "bindVolumes exampleVolumes ([], [], []) =
       ([\<lparr>vName = ''d'',
          PersistentVolumeClaim = Some \<lparr>ClaimName = ''data'', pvcReadOnly = False\<rparr>,
          vOtherSource = None\<rparr>,
         \<lparr>vName = ''l'',
          PersistentVolumeClaim = Some \<lparr>ClaimName = ''logs'', pvcReadOnly = False\<rparr>,
          vOtherSource = None\<rparr>],
        [\<lparr>vmName = ''d'', vmMountPath = ''/data'', vmReadOnly = False\<rparr>,
         \<lparr>vmName = ''l'', vmMountPath = ''/logs'', vmReadOnly = False\<rparr>],
        [''/data'', ''/logs''])"
    by (simp add: a volumeBindings_example bindingVolume_def bindingMount_def bindingPath_def)
  show ?thesis
    using a [of vs] b c length_volumeBindings [of vs]
    by (simp add: bindingMount_def bindingPath_def)
qed

section \<open>Properties of the merge\<close>

lemma merge_prepend:
  "cs = [] \<or> cName (hd cs) \<noteq> n \<Longrightarrow> mergeInitContainer n ic cs = ic # cs"
  by (cases cs) (auto simp: mergeInitContainer_def)

lemma merge_replace:
  "cs \<noteq> [] \<Longrightarrow> cName (hd cs) = n \<Longrightarrow> mergeInitContainer n ic cs = ic # tl cs"
  by (cases cs) (auto simp: mergeInitContainer_def)

lemma merge_twice:
  "cName ic = n \<Longrightarrow>
     mergeInitContainer n ic (mergeInitContainer n ic cs) = mergeInitContainer n ic cs"
  by (cases cs) (auto simp: mergeInitContainer_def)

lemma merge_single:
  "cName ic = n \<Longrightarrow> \<forall>c \<in> set (tl cs). cName c \<noteq> n \<Longrightarrow>
     filter (\<lambda>c. cName c = n) (mergeInitContainer n ic cs) = [ic]"
  by (cases cs) (auto simp: mergeInitContainer_def filter_empty_conv)

lemma buildInitContainer_name: "cName (buildInitContainer cfg n m pp r sc) = n"
  by (simp add: buildInitContainer_def)

section \<open>Parsed quantities and comparisons\<close>

lemmas quantity_defs =
  ParseQuantity_def parseQuantityString_def suffixPart_def isDigit_def interpretSuffix_def
  fastPath_def ParseInt_def ParseUint_def maxUint64_def digitVal_def int64Multiply_def
  HasSuffix_def wrap32_def Let_def

lemma ParseQuantity_0: "ParseQuantity ''0'' = Inr unbounded"
  by (simp add: ParseQuantity_def unbounded_def)

lemma ParseQuantity_00: "ParseQuantity ''00'' = Inr q00"
  by (simp add: quantity_defs q00_def)

lemma ParseQuantity_0m: "ParseQuantity ''0m'' = Inr q0m"
  by (simp add: quantity_defs q0m_def)

lemma ParseQuantity_0Mi: "ParseQuantity ''0Mi'' = Inr q0Mi"
  by (simp add: quantity_defs q0Mi_def)

lemma ParseQuantity_100m: "ParseQuantity ''100m'' = Inr q100m"
  by (simp add: quantity_defs q100m_def)

lemma ParseQuantity_200m: "ParseQuantity ''200m'' = Inr q200m"
  by (simp add: quantity_defs q200m_def)

lemma ParseQuantity_128Mi: "ParseQuantity ''128Mi'' = Inr q128Mi"
  by (simp add: quantity_defs q128Mi_def)

lemma ParseQuantity_empty: "ParseQuantity [] = Inl ErrFormatWrong"
  by (simp add: ParseQuantity_def)

lemma bounded_examples:
  "q0m \<noteq> unbounded" "q0Mi \<noteq> unbounded" "q100m \<noteq> unbounded" "q200m \<noteq> unbounded"
  "q128Mi \<noteq> unbounded" "q00 \<noteq> unbounded"
  by (simp_all add: q0m_def q0Mi_def q100m_def q200m_def q128Mi_def q00_def unbounded_def)

lemma ParseQuantity_1_5Gi: "ParseQuantity ''1.5Gi'' = Inr q1_5Gi"
  by code_simp

lemma Cmp_examples:
  "fst (Cmp q200m q100m) = 1" "fst (Cmp q100m q200m) = - 1" "fst (Cmp q100m q100m) = 0"
  "fst (Cmp q100m q128Mi) = - 1" "fst (Cmp q100m q0m) = 1" "fst (Cmp q100m q0Mi) = 1"
  "fst (Cmp q0m unbounded) = 0" "fst (Cmp q0Mi unbounded) = 0" "fst (Cmp q0m q0m) = 0"
  "fst (Cmp q0Mi q0Mi) = 0" "fst (Cmp q100m unbounded) = 1" "fst (Cmp q100m q00) = 1"
  "fst (Cmp q00 unbounded) = 0" "fst (Cmp unbounded q00) = 0"
  by (simp_all add: Cmp_def decCmp_def q0m_def q0Mi_def q100m_def q200m_def
      q128Mi_def q00_def unbounded_def Let_def)

lemma Cmp_zero_promoted: "Cmp unbounded q1_5Gi = (- 1, promotedZero)"
  by (simp add: Cmp_def AsDec_def decCmp_def unbounded_def q1_5Gi_def promotedZero_def Let_def)

text \<open>What a comparison does to its receiver.\<close>

lemma Cmp_int64: "d_Dec q = None \<Longrightarrow> d_Dec y = None \<Longrightarrow> snd (Cmp q y) = q"
  by (simp add: Cmp_def)

lemma Cmp_promotes:
  "d_Dec q \<noteq> None \<or> d_Dec y \<noteq> None \<Longrightarrow> d_Dec (snd (Cmp q y)) \<noteq> None"
  by (auto simp: Cmp_def AsDec_def split: option.splits)

lemma Cmp_keeps_bounded:
  assumes "q \<noteq> unbounded"
  shows "snd (Cmp q y) \<noteq> unbounded"
proof (cases "d_Dec q = None \<and> d_Dec y = None")
  case True
  then show ?thesis using assms by (simp add: Cmp_int64)
next
  case False
  then have "d_Dec (snd (Cmp q y)) \<noteq> None" using Cmp_promotes [of q y] by blast
  moreover have "d_Dec unbounded = None" by (simp add: unbounded_def)
  ultimately show ?thesis by metis
qed

lemma Cmp_again: "fst (Cmp (snd (Cmp q y)) y) = fst (Cmp q y)"
  by (auto simp: Cmp_def AsDec_def split: option.splits)

lemma afterCheck_bounded: "q \<noteq> unbounded \<Longrightarrow> afterCheck q l \<noteq> unbounded"
  by (simp add: afterCheck_def Cmp_keeps_bounded)

lemma afterCheck_int64: "d_Dec q = None \<Longrightarrow> d_Dec l = None \<Longrightarrow> afterCheck q l = q"
  by (simp add: afterCheck_def Cmp_int64)

lemma afterCheck_examples:
  "afterCheck q100m q200m = q100m" "afterCheck q100m q100m = q100m"
  "afterCheck q0m q0m = q0m" "afterCheck q0Mi q0Mi = q0Mi"
  "afterCheck q100m unbounded = q100m" "afterCheck unbounded q1_5Gi = promotedZero"
  "afterCheck unbounded q00 = unbounded"
  by (simp_all add: afterCheck_def Cmp_def AsDec_def q0m_def q0Mi_def q100m_def q200m_def
      unbounded_def q1_5Gi_def promotedZero_def q00_def)

text \<open>
  Only the literal \<open>0\<close> parses to \<open>unbounded\<close>: the int64 path gives a quantity whose
  cached string is the input or empty, the arbitrary-precision path one with a decimal
  behind its pointer.
\<close>

lemma fastPath_s_cache:
  "fastPath str positive num denom fmt exponent precision scale0 mantissa = Some (Inr q)
     \<Longrightarrow> s_cache q = str \<or> s_cache q = []"
  by (auto simp: fastPath_def Let_def split: if_splits sum.splits option.splits)

lemma slowPath_dec: "slowPath val base exponent fmt = Inr q \<Longrightarrow> d_Dec q \<noteq> None"
  by (auto simp: slowPath_def Let_def split: option.splits)

lemma ParseQuantity_other:
  assumes "ParseQuantity str = Inr q" "str \<noteq> ''0''"
  shows "s_cache q = str \<or> s_cache q = [] \<or> d_Dec q \<noteq> None"
proof -
  from assms obtain positive val num denom suf base exponent fmt precision scale mantissa where
    r: "(case fastPath str positive num denom fmt exponent precision scale mantissa of
           Some r \<Rightarrow> r | None \<Rightarrow> slowPath val base exponent fmt) = Inr q"
    by (auto simp: ParseQuantity_def Let_def split: if_splits sum.splits option.splits
        prod.splits)
  show ?thesis
  proof (cases "fastPath str positive num denom fmt exponent precision scale mantissa")
    case None
    then show ?thesis using r slowPath_dec by simp
  next
    case (Some a)
    with r have "fastPath str positive num denom fmt exponent precision scale mantissa
        = Some (Inr q)"
      by simp
    from fastPath_s_cache [OF this] show ?thesis by blast
  qed
qed

lemma ParseQuantity_unbounded_iff: "ParseQuantity str = Inr unbounded \<longleftrightarrow> str = ''0''"
proof
  assume a: "ParseQuantity str = Inr unbounded"
  show "str = ''0''"
  proof (rule ccontr)
    assume n: "str \<noteq> ''0''"
    from ParseQuantity_other [OF a n] n show False by (auto simp: unbounded_def)
  qed
next
  assume "str = ''0''"
  then show "ParseQuantity str = Inr unbounded" by (simp add: ParseQuantity_0)
qed

lemma parsed_unbounded_iff: "ParseQuantity str = Inr q \<Longrightarrow> q = unbounded \<longleftrightarrow> str = ''0''"
  using ParseQuantity_unbounded_iff [of str] by auto

section \<open>Properties of ParseResourceRequirements\<close>

lemma PRR_parse_error:
  assumes "isl (ParseQuantity cr) \<or> isl (ParseQuantity mr) \<or> isl (ParseQuantity cl)
             \<or> isl (ParseQuantity ml)"
  shows "fst (ParseResourceRequirements cr mr cl ml) = noResources
           \<and> snd (ParseResourceRequirements cr mr cl ml) \<noteq> None"
proof (cases "ParseQuantity cr")
  case Inl
  then show ?thesis by (simp add: ParseResourceRequirements_def noResources_def)
next
  case a: (Inr pcr)
  show ?thesis
  proof (cases "ParseQuantity mr")
    case Inl
    with a show ?thesis by (simp add: ParseResourceRequirements_def noResources_def)
  next
    case b: (Inr pmr)
    show ?thesis
    proof (cases "ParseQuantity cl")
      case Inl
      with a b show ?thesis by (simp add: ParseResourceRequirements_def noResources_def)
    next
      case c: (Inr pcl)
      show ?thesis
      proof (cases "ParseQuantity ml")
        case Inl
        with a b c show ?thesis by (simp add: ParseResourceRequirements_def noResources_def)
      next
        case (Inr pml)
        with a b c assms show ?thesis by simp
      qed
    qed
  qed
qed

lemma all_parsed:
  assumes "\<not> (isl (ParseQuantity cr) \<or> isl (ParseQuantity mr) \<or> isl (ParseQuantity cl)
             \<or> isl (ParseQuantity ml))"
  obtains pcr pmr pcl pml where "ParseQuantity cr = Inr pcr" "ParseQuantity mr = Inr pmr"
    "ParseQuantity cl = Inr pcl" "ParseQuantity ml = Inr pml"
  using assms by (metis isl_def sum.exhaust_sel sum.collapse(2))

lemma PRR_cpu_fail:
  assumes "ParseQuantity cr = Inr pcr" "ParseQuantity mr = Inr pmr"
    "ParseQuantity cl = Inr pcl" "ParseQuantity ml = Inr pml"
    "pcl \<noteq> unbounded" "fst (Cmp pcr pcl) > 0"
  shows "fst (ParseResourceRequirements cr mr cl ml) = noResources
           \<and> snd (ParseResourceRequirements cr mr cl ml) \<noteq> None"
  using assms
  by (simp add: ParseResourceRequirements_def noResources_def case_prod_beta)

lemma PRR_mem_fail:
  assumes "ParseQuantity cr = Inr pcr" "ParseQuantity mr = Inr pmr"
    "ParseQuantity cl = Inr pcl" "ParseQuantity ml = Inr pml"
    "pml \<noteq> unbounded" "fst (Cmp pmr pml) > 0"
  shows "fst (ParseResourceRequirements cr mr cl ml) = noResources
           \<and> snd (ParseResourceRequirements cr mr cl ml) \<noteq> None"
  using assms
  by (cases "pcl \<noteq> unbounded \<and> fst (Cmp pcr pcl) > 0")
     (simp_all add: ParseResourceRequirements_def noResources_def Let_def case_prod_beta)

lemma PRR_pass:
  assumes "ParseQuantity cr = Inr pcr" "ParseQuantity mr = Inr pmr"
    "ParseQuantity cl = Inr pcl" "ParseQuantity ml = Inr pml"
    "pcl = unbounded \<or> fst (Cmp pcr pcl) \<le> 0" "pml = unbounded \<or> fst (Cmp pmr pml) \<le> 0"
  shows "snd (ParseResourceRequirements cr mr cl ml) = None"
    and "Requests (fst (ParseResourceRequirements cr mr cl ml)) ResourceCPU =
           (if afterCheck pcr pcl = unbounded then None else Some (afterCheck pcr pcl))"
    and "Requests (fst (ParseResourceRequirements cr mr cl ml)) ResourceMemory =
           (if afterCheck pmr pml = unbounded then None else Some (afterCheck pmr pml))"
    and "Limits (fst (ParseResourceRequirements cr mr cl ml)) ResourceCPU =
           (if pcl = unbounded then None else Some pcl)"
    and "Limits (fst (ParseResourceRequirements cr mr cl ml)) ResourceMemory =
           (if pml = unbounded then None else Some pml)"
proof -
  have n1: "\<not> (pcl \<noteq> unbounded \<and> 0 < fst (Cmp pcr pcl))" using assms(5) by auto
  have n2: "\<not> (pml \<noteq> unbounded \<and> 0 < fst (Cmp pmr pml))" using assms(6) by auto
  show "snd (ParseResourceRequirements cr mr cl ml) = None"
    using assms(1-4) n1 n2
    by (auto simp: ParseResourceRequirements_def Let_def afterCheck_def case_prod_beta)
  show "Requests (fst (ParseResourceRequirements cr mr cl ml)) ResourceCPU =
           (if afterCheck pcr pcl = unbounded then None else Some (afterCheck pcr pcl))"
    using assms(1-4) n1 n2
    by (auto simp: ParseResourceRequirements_def Let_def afterCheck_def case_prod_beta)
  show "Requests (fst (ParseResourceRequirements cr mr cl ml)) ResourceMemory =
           (if afterCheck pmr pml = unbounded then None else Some (afterCheck pmr pml))"
    using assms(1-4) n1 n2
    by (auto simp: ParseResourceRequirements_def Let_def afterCheck_def case_prod_beta)
  show "Limits (fst (ParseResourceRequirements cr mr cl ml)) ResourceCPU =
           (if pcl = unbounded then None else Some pcl)"
    using assms(1-4) n1 n2
    by (auto simp: ParseResourceRequirements_def Let_def afterCheck_def case_prod_beta)
  show "Limits (fst (ParseResourceRequirements cr mr cl ml)) ResourceMemory =
           (if pml = unbounded then None else Some pml)"
    using assms(1-4) n1 n2
    by (auto simp: ParseResourceRequirements_def Let_def afterCheck_def case_prod_beta)
qed

text \<open>A return without error: all four strings parsed and both checks passed.\<close>

lemma PRR_success:
  assumes "snd (ParseResourceRequirements cr mr cl ml) = None"
  obtains pcr pmr pcl pml where
    "ParseQuantity cr = Inr pcr" "ParseQuantity mr = Inr pmr"
    "ParseQuantity cl = Inr pcl" "ParseQuantity ml = Inr pml"
    "pcl = unbounded \<or> fst (Cmp pcr pcl) \<le> 0" "pml = unbounded \<or> fst (Cmp pmr pml) \<le> 0"
proof -
  have "\<not> (isl (ParseQuantity cr) \<or> isl (ParseQuantity mr) \<or> isl (ParseQuantity cl)
             \<or> isl (ParseQuantity ml))"
    using PRR_parse_error [of cr mr cl ml] assms by blast
  then obtain pcr pmr pcl pml where p: "ParseQuantity cr = Inr pcr" "ParseQuantity mr = Inr pmr"
    "ParseQuantity cl = Inr pcl" "ParseQuantity ml = Inr pml"
    by (rule all_parsed)
  have "pcl = unbounded \<or> fst (Cmp pcr pcl) \<le> 0"
    using PRR_cpu_fail [OF p] assms by fastforce
  moreover have "pml = unbounded \<or> fst (Cmp pmr pml) \<le> 0"
    using PRR_mem_fail [OF p] assms by fastforce
  ultimately show ?thesis using p that by blast
qed

text \<open>A return with an error carries the empty requirements.\<close>

lemma PRR_error_empty:
  assumes "snd (ParseResourceRequirements cr mr cl ml) \<noteq> None"
  shows "fst (ParseResourceRequirements cr mr cl ml) = noResources"
proof (cases "isl (ParseQuantity cr) \<or> isl (ParseQuantity mr) \<or> isl (ParseQuantity cl)
             \<or> isl (ParseQuantity ml)")
  case True
  then show ?thesis using PRR_parse_error by blast
next
  case False
  then obtain pcr pmr pcl pml where p: "ParseQuantity cr = Inr pcr" "ParseQuantity mr = Inr pmr"
    "ParseQuantity cl = Inr pcl" "ParseQuantity ml = Inr pml"
    by (rule all_parsed)
  show ?thesis
  proof (cases "pcl \<noteq> unbounded \<and> fst (Cmp pcr pcl) > 0")
    case True
    then show ?thesis using PRR_cpu_fail [OF p] by simp
  next
    case c: False
    show ?thesis
    proof (cases "pml \<noteq> unbounded \<and> fst (Cmp pmr pml) > 0")
      case True
      then show ?thesis using PRR_mem_fail [OF p] by simp
    next
      case False
      then have "snd (ParseResourceRequirements cr mr cl ml) = None"
        using PRR_pass(1) [OF p] c by fastforce
      then show ?thesis using assms by simp
    qed
  qed
qed

text \<open>
  What an entry of the returned maps can be: for a limit the parse of its string, for a
  request the parse of its string after the check, and never the quantity \<open>unbounded\<close>.
\<close>

lemma PRR_entry:
  "Requests (fst (ParseResourceRequirements cr mr cl ml)) ResourceCPU = Some q
     \<Longrightarrow> \<exists>pcr pcl. ParseQuantity cr = Inr pcr \<and> ParseQuantity cl = Inr pcl
           \<and> q = afterCheck pcr pcl \<and> q \<noteq> unbounded
           \<and> (pcl = unbounded \<or> fst (Cmp pcr pcl) \<le> 0)"
  "Requests (fst (ParseResourceRequirements cr mr cl ml)) ResourceMemory = Some q
     \<Longrightarrow> \<exists>pmr pml. ParseQuantity mr = Inr pmr \<and> ParseQuantity ml = Inr pml
           \<and> q = afterCheck pmr pml \<and> q \<noteq> unbounded
           \<and> (pml = unbounded \<or> fst (Cmp pmr pml) \<le> 0)"
  "Limits (fst (ParseResourceRequirements cr mr cl ml)) ResourceCPU = Some q
     \<Longrightarrow> ParseQuantity cl = Inr q \<and> q \<noteq> unbounded"
  "Limits (fst (ParseResourceRequirements cr mr cl ml)) ResourceMemory = Some q
     \<Longrightarrow> ParseQuantity ml = Inr q \<and> q \<noteq> unbounded"
proof -
  have main: "(Requests (fst (ParseResourceRequirements cr mr cl ml)) ResourceCPU = Some q
      \<longrightarrow> (\<exists>pcr pcl. ParseQuantity cr = Inr pcr \<and> ParseQuantity cl = Inr pcl
           \<and> q = afterCheck pcr pcl \<and> q \<noteq> unbounded
           \<and> (pcl = unbounded \<or> fst (Cmp pcr pcl) \<le> 0)))
    \<and> (Requests (fst (ParseResourceRequirements cr mr cl ml)) ResourceMemory = Some q
      \<longrightarrow> (\<exists>pmr pml. ParseQuantity mr = Inr pmr \<and> ParseQuantity ml = Inr pml
           \<and> q = afterCheck pmr pml \<and> q \<noteq> unbounded
           \<and> (pml = unbounded \<or> fst (Cmp pmr pml) \<le> 0)))
    \<and> (Limits (fst (ParseResourceRequirements cr mr cl ml)) ResourceCPU = Some q
      \<longrightarrow> ParseQuantity cl = Inr q \<and> q \<noteq> unbounded)
    \<and> (Limits (fst (ParseResourceRequirements cr mr cl ml)) ResourceMemory = Some q
      \<longrightarrow> ParseQuantity ml = Inr q \<and> q \<noteq> unbounded)"
  proof (cases "snd (ParseResourceRequirements cr mr cl ml) = None")
    case False
    then show ?thesis using PRR_error_empty [of cr mr cl ml] by (simp add: noResources_def)
  next
    case True
    then obtain pcr pmr pcl pml where
      p: "ParseQuantity cr = Inr pcr" "ParseQuantity mr = Inr pmr"
        "ParseQuantity cl = Inr pcl" "ParseQuantity ml = Inr pml"
      and c: "pcl = unbounded \<or> fst (Cmp pcr pcl) \<le> 0"
        "pml = unbounded \<or> fst (Cmp pmr pml) \<le> 0"
      by (rule PRR_success)
    show ?thesis
      using PRR_pass(2-5) [OF p c] p c by (auto split: if_splits)
  qed
  show "Requests (fst (ParseResourceRequirements cr mr cl ml)) ResourceCPU = Some q
     \<Longrightarrow> \<exists>pcr pcl. ParseQuantity cr = Inr pcr \<and> ParseQuantity cl = Inr pcl
           \<and> q = afterCheck pcr pcl \<and> q \<noteq> unbounded
           \<and> (pcl = unbounded \<or> fst (Cmp pcr pcl) \<le> 0)"
    using main by blast
  show "Requests (fst (ParseResourceRequirements cr mr cl ml)) ResourceMemory = Some q
     \<Longrightarrow> \<exists>pmr pml. ParseQuantity mr = Inr pmr \<and> ParseQuantity ml = Inr pml
           \<and> q = afterCheck pmr pml \<and> q \<noteq> unbounded
           \<and> (pml = unbounded \<or> fst (Cmp pmr pml) \<le> 0)"
    using main by blast
  show "Limits (fst (ParseResourceRequirements cr mr cl ml)) ResourceCPU = Some q
     \<Longrightarrow> ParseQuantity cl = Inr q \<and> q \<noteq> unbounded"
    using main by blast
  show "Limits (fst (ParseResourceRequirements cr mr cl ml)) ResourceMemory = Some q
     \<Longrightarrow> ParseQuantity ml = Inr q \<and> q \<noteq> unbounded"
    using main by blast
qed

lemma PRR_200_100: "snd (ParseResourceRequirements ''200m'' ''100m'' ''100m'' ''100m'') \<noteq> None"
  using PRR_cpu_fail [OF ParseQuantity_200m ParseQuantity_100m ParseQuantity_100m
      ParseQuantity_100m bounded_examples(3)]
  by (simp add: Cmp_examples)

lemma PRR_100_200:
  "snd (ParseResourceRequirements ''100m'' ''100m'' ''200m'' ''200m'') = None"
  "Requests (fst (ParseResourceRequirements ''100m'' ''100m'' ''200m'' ''200m'')) ResourceCPU
     = Some q100m"
  "Requests (fst (ParseResourceRequirements ''100m'' ''100m'' ''200m'' ''200m'')) ResourceMemory
     = Some q100m"
  "Limits (fst (ParseResourceRequirements ''100m'' ''100m'' ''200m'' ''200m'')) ResourceCPU
     = Some q200m"
  "Limits (fst (ParseResourceRequirements ''100m'' ''100m'' ''200m'' ''200m'')) ResourceMemory
     = Some q200m"
  using PRR_pass [OF ParseQuantity_100m ParseQuantity_100m ParseQuantity_200m
      ParseQuantity_200m]
  by (simp_all add: Cmp_examples bounded_examples afterCheck_examples)

text \<open>
  What holds of the order check: a violated request \<open>\<le>\<close> limit, for CPU or for memory,
  gives an error and empty maps; in a return without error every request that has an
  entry is at most its limit when that has one; both example calls behave as expected; a
  limit \<open>0\<close> never has an entry, and a request \<open>0\<close> has none when its limit is
  \<open>unbounded\<close> or in int64 form.
\<close>

lemma ParseResourceRequirements_enforces_order:
  "(ParseQuantity cr = Inr pcr \<and> ParseQuantity mr = Inr pmr \<and> ParseQuantity cl = Inr pcl
      \<and> ParseQuantity ml = Inr pml
      \<and> ((pcl \<noteq> unbounded \<and> fst (Cmp pcr pcl) > 0)
           \<or> (pml \<noteq> unbounded \<and> fst (Cmp pmr pml) > 0))
     \<longrightarrow> snd (ParseResourceRequirements cr mr cl ml) \<noteq> None
           \<and> fst (ParseResourceRequirements cr mr cl ml) = noResources)
   \<and> (Requests (fst (ParseResourceRequirements cr' mr' cl' ml')) k = Some q
        \<and> Limits (fst (ParseResourceRequirements cr' mr' cl' ml')) k = Some l
     \<longrightarrow> fst (Cmp q l) \<le> 0)
   \<and> snd (ParseResourceRequirements ''200m'' ''100m'' ''100m'' ''100m'') \<noteq> None
   \<and> snd (ParseResourceRequirements ''100m'' ''100m'' ''200m'' ''200m'') = None
   \<and> Limits (fst (ParseResourceRequirements s1 s2 ''0'' s3)) ResourceCPU = None
   \<and> Limits (fst (ParseResourceRequirements s1 s2 s3 ''0'')) ResourceMemory = None
   \<and> (ParseQuantity s2 = Inr pl \<and> d_Dec pl = None
        \<longrightarrow> Requests (fst (ParseResourceRequirements ''0'' s1 s2 s3)) ResourceCPU = None)
   \<and> (ParseQuantity s3 = Inr pl \<and> d_Dec pl = None
        \<longrightarrow> Requests (fst (ParseResourceRequirements s1 ''0'' s2 s3)) ResourceMemory = None)"
proof -
  have violation: "snd (ParseResourceRequirements cr mr cl ml) \<noteq> None
           \<and> fst (ParseResourceRequirements cr mr cl ml) = noResources"
    if p: "ParseQuantity cr = Inr pcr" "ParseQuantity mr = Inr pmr"
      "ParseQuantity cl = Inr pcl" "ParseQuantity ml = Inr pml"
      and v: "(pcl \<noteq> unbounded \<and> fst (Cmp pcr pcl) > 0)
           \<or> (pml \<noteq> unbounded \<and> fst (Cmp pmr pml) > 0)"
    using v PRR_cpu_fail [OF p] PRR_mem_fail [OF p] by blast
  have ordered: "fst (Cmp q l) \<le> 0"
    if rq: "Requests (fst (ParseResourceRequirements cr' mr' cl' ml')) k = Some q"
      and lm: "Limits (fst (ParseResourceRequirements cr' mr' cl' ml')) k = Some l"
  proof (cases k)
    case ResourceCPU
    from PRR_entry(1) [of cr' mr' cl' ml' q] rq ResourceCPU obtain pcr pcl where
      e: "ParseQuantity cl' = Inr pcl" "q = afterCheck pcr pcl"
        "pcl = unbounded \<or> fst (Cmp pcr pcl) \<le> 0"
      by blast
    from PRR_entry(3) [of cr' mr' cl' ml' l] lm ResourceCPU e(1)
    have "l = pcl" "pcl \<noteq> unbounded" by simp_all
    then show ?thesis using e(2,3) by (simp add: afterCheck_def Cmp_again)
  next
    case ResourceMemory
    from PRR_entry(2) [of cr' mr' cl' ml' q] rq ResourceMemory obtain pmr pml where
      e: "ParseQuantity ml' = Inr pml" "q = afterCheck pmr pml"
        "pml = unbounded \<or> fst (Cmp pmr pml) \<le> 0"
      by blast
    from PRR_entry(4) [of cr' mr' cl' ml' l] lm ResourceMemory e(1)
    have "l = pml" "pml \<noteq> unbounded" by simp_all
    then show ?thesis using e(2,3) by (simp add: afterCheck_def Cmp_again)
  qed
  have z3: "Limits (fst (ParseResourceRequirements s1 s2 ''0'' s3)) ResourceCPU = None"
    using PRR_entry(3) [of s1 s2 "''0''" s3] ParseQuantity_0
    by (cases "Limits (fst (ParseResourceRequirements s1 s2 ''0'' s3)) ResourceCPU") auto
  have z4: "Limits (fst (ParseResourceRequirements s1 s2 s3 ''0'')) ResourceMemory = None"
    using PRR_entry(4) [of s1 s2 s3 "''0''"] ParseQuantity_0
    by (cases "Limits (fst (ParseResourceRequirements s1 s2 s3 ''0'')) ResourceMemory") auto
  have u: "afterCheck unbounded pl = unbounded" if "d_Dec pl = None"
    using that afterCheck_int64 [of unbounded pl] by (simp add: unbounded_def)
  have z1: "Requests (fst (ParseResourceRequirements ''0'' s1 s2 s3)) ResourceCPU = None"
    if "ParseQuantity s2 = Inr pl" "d_Dec pl = None"
    using PRR_entry(1) [of "''0''" s1 s2 s3] ParseQuantity_0 that u
    by (cases "Requests (fst (ParseResourceRequirements ''0'' s1 s2 s3)) ResourceCPU") auto
  have z2: "Requests (fst (ParseResourceRequirements s1 ''0'' s2 s3)) ResourceMemory = None"
    if "ParseQuantity s3 = Inr pl" "d_Dec pl = None"
    using PRR_entry(2) [of s1 "''0''" s2 s3] ParseQuantity_0 that u
    by (cases "Requests (fst (ParseResourceRequirements s1 ''0'' s2 s3)) ResourceMemory") auto
  show ?thesis
    using violation ordered PRR_200_100 PRR_100_200(1) z1 z2 z3 z4 by blast
qed

text \<open>
  Claim C4 fails on the code in its last part. The requests \<open>0\<close> with the limits
  \<open>1.5Gi\<close>: the limit takes the arbitrary-precision path of the parser, the comparison
  of the request with it promotes the request in place, and the promoted zero is no
  longer the struct \<open>unbounded\<close>. The call succeeds, and both requests \<open>0\<close> have an
  entry in the request map, with the quantity zero.
\<close>

theorem ParseResourceRequirements_zero_request_kept:
  "ParseQuantity ''0'' = Inr unbounded
   \<and> ParseQuantity ''1.5Gi'' = Inr q1_5Gi
   \<and> Cmp unbounded q1_5Gi = (- 1, promotedZero)
   \<and> promotedZero \<noteq> unbounded
   \<and> snd (ParseResourceRequirements ''0'' ''0'' ''1.5Gi'' ''1.5Gi'') = None
   \<and> Requests (fst (ParseResourceRequirements ''0'' ''0'' ''1.5Gi'' ''1.5Gi'')) ResourceCPU
       = Some promotedZero
   \<and> Requests (fst (ParseResourceRequirements ''0'' ''0'' ''1.5Gi'' ''1.5Gi'')) ResourceMemory
       = Some promotedZero"
proof -
  have b: "q1_5Gi \<noteq> unbounded" "promotedZero \<noteq> unbounded"
    by (simp_all add: q1_5Gi_def promotedZero_def unbounded_def)
  have c: "q1_5Gi = unbounded \<or> fst (Cmp unbounded q1_5Gi) \<le> 0"
    by (simp add: Cmp_zero_promoted)
  show ?thesis
    using PRR_pass(1-3) [OF ParseQuantity_0 ParseQuantity_0 ParseQuantity_1_5Gi
        ParseQuantity_1_5Gi c c] b
    by (simp add: ParseQuantity_0 ParseQuantity_1_5Gi Cmp_zero_promoted afterCheck_examples)
qed

lemma PRR_limit_00:
  "snd (ParseResourceRequirements ''100m'' ''100m'' ''00'' ''00'') \<noteq> None"
  using PRR_cpu_fail [OF ParseQuantity_100m ParseQuantity_100m ParseQuantity_00
      ParseQuantity_00 bounded_examples(6)]
  by (simp add: Cmp_examples)

lemma PRR_limit_0:
  "snd (ParseResourceRequirements ''100m'' ''100m'' ''0'' ''0'') = None"
  "Limits (fst (ParseResourceRequirements ''100m'' ''100m'' ''0'' ''0'')) ResourceCPU = None"
  "Limits (fst (ParseResourceRequirements ''100m'' ''100m'' ''0'' ''0'')) ResourceMemory = None"
  using PRR_pass [OF ParseQuantity_100m ParseQuantity_100m ParseQuantity_0 ParseQuantity_0]
  by simp_all

lemma PRR_zero_suffixes:
  "snd (ParseResourceRequirements ''0m'' ''0Mi'' ''0m'' ''0Mi'') = None"
  "Requests (fst (ParseResourceRequirements ''0m'' ''0Mi'' ''0m'' ''0Mi'')) ResourceCPU = Some q0m"
  "Requests (fst (ParseResourceRequirements ''0m'' ''0Mi'' ''0m'' ''0Mi'')) ResourceMemory
     = Some q0Mi"
  "Limits (fst (ParseResourceRequirements ''0m'' ''0Mi'' ''0m'' ''0Mi'')) ResourceCPU = Some q0m"
  "Limits (fst (ParseResourceRequirements ''0m'' ''0Mi'' ''0m'' ''0Mi'')) ResourceMemory
     = Some q0Mi"
  using PRR_pass [OF ParseQuantity_0m ParseQuantity_0Mi ParseQuantity_0m ParseQuantity_0Mi]
  by (simp_all add: Cmp_examples bounded_examples afterCheck_examples)

lemma PRR_limit_0m:
  "snd (ParseResourceRequirements ''100m'' ''100m'' ''0m'' ''0Mi'') \<noteq> None"
  using PRR_cpu_fail [OF ParseQuantity_100m ParseQuantity_100m ParseQuantity_0m
      ParseQuantity_0Mi bounded_examples(1)]
  by (simp add: Cmp_examples)

text \<open>
  Claim C10. ParseResourceRequirements recognizes unbounded only by the equality of the
  parsed quantity with the parse of the literal \<open>0\<close>, and no other string parses to that
  struct. With four strings that parse, the call succeeds if and only if each limit is
  the literal \<open>0\<close> or is at least its request, so a limit in any other syntax takes part
  in the check; on success such a limit has its entry in the limit map, and a request in
  any other syntax than \<open>0\<close> has its entry in the request map. The zero strings \<open>0m\<close>,
  \<open>0Mi\<close> and \<open>00\<close> denote zero and are not unbounded: as requests and limits of one
  call they have their entries, and as limits they make the request \<open>100m\<close> fail,
  which passes against the limit \<open>0\<close>.
\<close>

theorem ParseResourceRequirements_unbounded_only_literal_zero:
  "(ParseQuantity str = Inr unbounded \<longleftrightarrow> str = ''0'')
   \<and> (ParseQuantity cr = Inr pcr \<and> ParseQuantity mr = Inr pmr \<and> ParseQuantity cl = Inr pcl
      \<and> ParseQuantity ml = Inr pml
     \<longrightarrow> (snd (ParseResourceRequirements cr mr cl ml) = None
            \<longleftrightarrow> (cl = ''0'' \<or> fst (Cmp pcr pcl) \<le> 0)
                \<and> (ml = ''0'' \<or> fst (Cmp pmr pml) \<le> 0))
         \<and> (snd (ParseResourceRequirements cr mr cl ml) = None
            \<longrightarrow> Limits (fst (ParseResourceRequirements cr mr cl ml)) ResourceCPU
                   = (if cl = ''0'' then None else Some pcl)
                \<and> Limits (fst (ParseResourceRequirements cr mr cl ml)) ResourceMemory
                   = (if ml = ''0'' then None else Some pml)
                \<and> (cr \<noteq> ''0''
                    \<longrightarrow> Requests (fst (ParseResourceRequirements cr mr cl ml)) ResourceCPU
                          = Some (afterCheck pcr pcl))
                \<and> (mr \<noteq> ''0''
                    \<longrightarrow> Requests (fst (ParseResourceRequirements cr mr cl ml)) ResourceMemory
                          = Some (afterCheck pmr pml))))
   \<and> ParseQuantity ''0m'' = Inr q0m \<and> q0m \<noteq> unbounded \<and> fst (Cmp q0m unbounded) = 0
   \<and> ParseQuantity ''0Mi'' = Inr q0Mi \<and> q0Mi \<noteq> unbounded \<and> fst (Cmp q0Mi unbounded) = 0
   \<and> ParseQuantity ''00'' = Inr q00 \<and> q00 \<noteq> unbounded \<and> fst (Cmp q00 unbounded) = 0
   \<and> snd (ParseResourceRequirements ''0m'' ''0Mi'' ''0m'' ''0Mi'') = None
   \<and> Requests (fst (ParseResourceRequirements ''0m'' ''0Mi'' ''0m'' ''0Mi'')) ResourceCPU
       = Some q0m
   \<and> Requests (fst (ParseResourceRequirements ''0m'' ''0Mi'' ''0m'' ''0Mi'')) ResourceMemory
       = Some q0Mi
   \<and> Limits (fst (ParseResourceRequirements ''0m'' ''0Mi'' ''0m'' ''0Mi'')) ResourceCPU
       = Some q0m
   \<and> Limits (fst (ParseResourceRequirements ''0m'' ''0Mi'' ''0m'' ''0Mi'')) ResourceMemory
       = Some q0Mi
   \<and> snd (ParseResourceRequirements ''100m'' ''100m'' ''0m'' ''0Mi'') \<noteq> None
   \<and> snd (ParseResourceRequirements ''100m'' ''100m'' ''00'' ''00'') \<noteq> None
   \<and> snd (ParseResourceRequirements ''100m'' ''100m'' ''0'' ''0'') = None"
  (is "?A \<and> (?P \<longrightarrow> ?Q) \<and> ?E")
proof -
  have general:
    "(snd (ParseResourceRequirements cr mr cl ml) = None
            \<longleftrightarrow> (cl = ''0'' \<or> fst (Cmp pcr pcl) \<le> 0)
                \<and> (ml = ''0'' \<or> fst (Cmp pmr pml) \<le> 0))
         \<and> (snd (ParseResourceRequirements cr mr cl ml) = None
            \<longrightarrow> Limits (fst (ParseResourceRequirements cr mr cl ml)) ResourceCPU
                   = (if cl = ''0'' then None else Some pcl)
                \<and> Limits (fst (ParseResourceRequirements cr mr cl ml)) ResourceMemory
                   = (if ml = ''0'' then None else Some pml)
                \<and> (cr \<noteq> ''0''
                    \<longrightarrow> Requests (fst (ParseResourceRequirements cr mr cl ml)) ResourceCPU
                          = Some (afterCheck pcr pcl))
                \<and> (mr \<noteq> ''0''
                    \<longrightarrow> Requests (fst (ParseResourceRequirements cr mr cl ml)) ResourceMemory
                          = Some (afterCheck pmr pml)))"
    if p: "ParseQuantity cr = Inr pcr" "ParseQuantity mr = Inr pmr"
      "ParseQuantity cl = Inr pcl" "ParseQuantity ml = Inr pml"
  proof -
    have u: "pcr = unbounded \<longleftrightarrow> cr = ''0''" "pmr = unbounded \<longleftrightarrow> mr = ''0''"
      "pcl = unbounded \<longleftrightarrow> cl = ''0''" "pml = unbounded \<longleftrightarrow> ml = ''0''"
      using p by (simp_all add: parsed_unbounded_iff)
    show ?thesis
    proof (cases "(pcl = unbounded \<or> fst (Cmp pcr pcl) \<le> 0)
                  \<and> (pml = unbounded \<or> fst (Cmp pmr pml) \<le> 0)")
      case True
      then have c: "pcl = unbounded \<or> fst (Cmp pcr pcl) \<le> 0"
        "pml = unbounded \<or> fst (Cmp pmr pml) \<le> 0"
        by simp_all
      have s: "snd (ParseResourceRequirements cr mr cl ml) = None"
        and r1: "Requests (fst (ParseResourceRequirements cr mr cl ml)) ResourceCPU =
           (if afterCheck pcr pcl = unbounded then None else Some (afterCheck pcr pcl))"
        and r2: "Requests (fst (ParseResourceRequirements cr mr cl ml)) ResourceMemory =
           (if afterCheck pmr pml = unbounded then None else Some (afterCheck pmr pml))"
        and l1: "Limits (fst (ParseResourceRequirements cr mr cl ml)) ResourceCPU =
           (if pcl = unbounded then None else Some pcl)"
        and l2: "Limits (fst (ParseResourceRequirements cr mr cl ml)) ResourceMemory =
           (if pml = unbounded then None else Some pml)"
        using PRR_pass [OF p c] by simp_all
      have b1: "cr \<noteq> ''0'' \<Longrightarrow> afterCheck pcr pcl \<noteq> unbounded"
        using afterCheck_bounded [of pcr pcl] u(1) by simp
      have b2: "mr \<noteq> ''0'' \<Longrightarrow> afterCheck pmr pml \<noteq> unbounded"
        using afterCheck_bounded [of pmr pml] u(2) by simp
      show ?thesis
        using s r1 r2 l1 l2 b1 b2 True u(3,4) by simp
    next
      case False
      then have "(pcl \<noteq> unbounded \<and> fst (Cmp pcr pcl) > 0)
          \<or> (pml \<noteq> unbounded \<and> fst (Cmp pmr pml) > 0)"
        by auto
      then have "snd (ParseResourceRequirements cr mr cl ml) \<noteq> None"
        using PRR_cpu_fail [OF p] PRR_mem_fail [OF p] by blast
      then show ?thesis using False u(3,4) by blast
    qed
  qed
  have examples:
    "ParseQuantity ''0m'' = Inr q0m \<and> q0m \<noteq> unbounded \<and> fst (Cmp q0m unbounded) = 0
     \<and> ParseQuantity ''0Mi'' = Inr q0Mi \<and> q0Mi \<noteq> unbounded \<and> fst (Cmp q0Mi unbounded) = 0
     \<and> ParseQuantity ''00'' = Inr q00 \<and> q00 \<noteq> unbounded \<and> fst (Cmp q00 unbounded) = 0
     \<and> snd (ParseResourceRequirements ''0m'' ''0Mi'' ''0m'' ''0Mi'') = None
     \<and> Requests (fst (ParseResourceRequirements ''0m'' ''0Mi'' ''0m'' ''0Mi'')) ResourceCPU
         = Some q0m
     \<and> Requests (fst (ParseResourceRequirements ''0m'' ''0Mi'' ''0m'' ''0Mi'')) ResourceMemory
         = Some q0Mi
     \<and> Limits (fst (ParseResourceRequirements ''0m'' ''0Mi'' ''0m'' ''0Mi'')) ResourceCPU
         = Some q0m
     \<and> Limits (fst (ParseResourceRequirements ''0m'' ''0Mi'' ''0m'' ''0Mi'')) ResourceMemory
         = Some q0Mi
     \<and> snd (ParseResourceRequirements ''100m'' ''100m'' ''0m'' ''0Mi'') \<noteq> None
     \<and> snd (ParseResourceRequirements ''100m'' ''100m'' ''00'' ''00'') \<noteq> None
     \<and> snd (ParseResourceRequirements ''100m'' ''100m'' ''0'' ''0'') = None"
    using PRR_limit_0m PRR_limit_00
    by (simp add: ParseQuantity_0m ParseQuantity_0Mi ParseQuantity_00 bounded_examples
        Cmp_examples PRR_zero_suffixes PRR_limit_0(1))
  have a: ?A by (rule ParseQuantity_unbounded_iff)
  have pq: "?P \<longrightarrow> ?Q" by (intro impI, elim conjE, rule general)
  show ?thesis by (rule conjI [OF a conjI [OF pq examples]])
qed

text \<open>
  An instance: the request \<open>100m\<close> with the limits \<open>0m\<close> and \<open>0Mi\<close>; the limits are not
  the literal \<open>0\<close>, the request exceeds them, and the call fails.
\<close>

theorem ParseResourceRequirements_unbounded_only_literal_zero_witness:
  "(snd (ParseResourceRequirements ''100m'' ''100m'' ''0m'' ''0Mi'') = None
      \<longleftrightarrow> (''0m'' = ''0'' \<or> fst (Cmp q100m q0m) \<le> 0)
          \<and> (''0Mi'' = ''0'' \<or> fst (Cmp q100m q0Mi) \<le> 0))
   \<and> snd (ParseResourceRequirements ''100m'' ''100m'' ''0m'' ''0Mi'') \<noteq> None"
proof -
  have h: "ParseQuantity ''100m'' = Inr q100m \<and> ParseQuantity ''100m'' = Inr q100m
      \<and> ParseQuantity ''0m'' = Inr q0m \<and> ParseQuantity ''0Mi'' = Inr q0Mi"
    by (simp add: ParseQuantity_100m ParseQuantity_0m ParseQuantity_0Mi)
  show ?thesis
    using h
      ParseResourceRequirements_unbounded_only_literal_zero
        [where cr = "''100m''" and mr = "''100m''" and cl = "''0m''" and ml = "''0Mi''"
           and pcr = q100m and pmr = q100m and pcl = q0m and pml = q0Mi]
    by blast
qed

section \<open>Properties of ParseSecurityContext\<close>

lemma PSC_user_malformed:
  assumes "u \<noteq> []" "isl (ParseInt u)"
  shows "fst (ParseSecurityContext u g a) = emptySecurityContext"
  using assms
  by (cases "ParseInt u"; simp add: ParseSecurityContext_def emptySecurityContext_def)

lemma PSC_error_iff:
  "snd (ParseSecurityContext u g a) \<noteq> None \<longleftrightarrow>
     (u \<noteq> [] \<and> isl (ParseInt u)) \<or> (g \<noteq> [] \<and> isl (ParseInt g))
       \<or> (a \<noteq> [] \<and> isl (ParseBool a))"
  by (cases "ParseInt u"; cases "ParseInt g"; cases "ParseBool a";
      simp add: ParseSecurityContext_def Let_def)

lemma PSC_fields:
  "RunAsUser (fst (ParseSecurityContext u g a)) \<noteq> None \<Longrightarrow> u \<noteq> []"
  "RunAsGroup (fst (ParseSecurityContext u g a)) \<noteq> None \<Longrightarrow> g \<noteq> []"
  "AllowPrivilegeEscalation (fst (ParseSecurityContext u g a)) \<noteq> None \<Longrightarrow> a \<noteq> []"
  by (cases "ParseInt u"; cases "ParseInt g"; cases "ParseBool a";
      simp add: ParseSecurityContext_def Let_def split: if_splits)+

lemma PSC_success_fields:
  assumes "snd (ParseSecurityContext u g a) = None"
  shows "u \<noteq> [] \<Longrightarrow> Inr (the (RunAsUser (fst (ParseSecurityContext u g a)))) = ParseInt u
            \<and> RunAsUser (fst (ParseSecurityContext u g a)) \<noteq> None"
    and "g \<noteq> [] \<Longrightarrow> Inr (the (RunAsGroup (fst (ParseSecurityContext u g a)))) = ParseInt g
            \<and> RunAsGroup (fst (ParseSecurityContext u g a)) \<noteq> None"
    and "a \<noteq> [] \<Longrightarrow>
           Inr (the (AllowPrivilegeEscalation (fst (ParseSecurityContext u g a)))) = ParseBool a
            \<and> AllowPrivilegeEscalation (fst (ParseSecurityContext u g a)) \<noteq> None"
  using assms
  by (cases "ParseInt u"; cases "ParseInt g"; cases "ParseBool a";
      simp add: ParseSecurityContext_def Let_def split: if_splits)+

lemma PSC_empty: "ParseSecurityContext [] [] [] = (emptySecurityContext, None)"
  by (simp add: ParseSecurityContext_def emptySecurityContext_def)

lemma ParseInt_abc: "ParseInt ''abc'' = Inl ErrSyntax"
  by (simp add: ParseInt_def ParseUint_def isDigit_def)

lemma ParseInt_1000: "ParseInt ''1000'' = Inr 1000"
  by (simp add: ParseInt_def ParseUint_def isDigit_def digitVal_def maxUint64_def Let_def)

lemma ParseBool_false: "ParseBool ''false'' = Inr False"
  by (simp add: ParseBool_def)

lemma PSC_abc:
  \<open>ParseSecurityContext ''abc'' ''0'' ''true'' =
     (emptySecurityContext,
      Some (WithStack
        (Errorf ''Security context runAsUser "%s" is not a number'' [ArgStr ''abc''])))\<close>
  by (simp add: ParseSecurityContext_def emptySecurityContext_def ParseInt_abc)

lemma PSC_1000:
  "ParseSecurityContext ''1000'' [] ''false'' =
     (\<lparr>RunAsUser = Some 1000, RunAsGroup = None, AllowPrivilegeEscalation = Some False\<rparr>, None)"
  by (simp add: ParseSecurityContext_def ParseInt_1000 ParseBool_false)

text \<open>
  Claim C7. ParseSecurityContext sets run-as-user, run-as-group and
  allow-privilege-escalation only when the corresponding string is not empty, and on
  success to the parsed value; it returns an error exactly when some non-empty string is
  malformed, so never for an empty string; and a malformed user string fails before any
  field is set. The call with three empty strings gives the empty context and no error;
  the call with \<open>abc\<close>, \<open>0\<close>, \<open>true\<close> gives the error about runAsUser and the empty
  context.
\<close>

theorem ParseSecurityContext_fields:
  \<open>(RunAsUser (fst (ParseSecurityContext u g a)) \<noteq> None \<longrightarrow> u \<noteq> [])
   \<and> (RunAsGroup (fst (ParseSecurityContext u g a)) \<noteq> None \<longrightarrow> g \<noteq> [])
   \<and> (AllowPrivilegeEscalation (fst (ParseSecurityContext u g a)) \<noteq> None \<longrightarrow> a \<noteq> [])
   \<and> (snd (ParseSecurityContext u g a) = None \<and> u \<noteq> []
        \<longrightarrow> (\<exists>x. ParseInt u = Inr x \<and> RunAsUser (fst (ParseSecurityContext u g a)) = Some x))
   \<and> (snd (ParseSecurityContext u g a) = None \<and> g \<noteq> []
        \<longrightarrow> (\<exists>x. ParseInt g = Inr x \<and> RunAsGroup (fst (ParseSecurityContext u g a)) = Some x))
   \<and> (snd (ParseSecurityContext u g a) = None \<and> a \<noteq> []
        \<longrightarrow> (\<exists>x. ParseBool a = Inr x
               \<and> AllowPrivilegeEscalation (fst (ParseSecurityContext u g a)) = Some x))
   \<and> (snd (ParseSecurityContext u g a) \<noteq> None \<longleftrightarrow>
        (u \<noteq> [] \<and> isl (ParseInt u)) \<or> (g \<noteq> [] \<and> isl (ParseInt g))
          \<or> (a \<noteq> [] \<and> isl (ParseBool a)))
   \<and> (u1 \<noteq> [] \<and> isl (ParseInt u1)
        \<longrightarrow> fst (ParseSecurityContext u1 g1 a1) = emptySecurityContext
            \<and> snd (ParseSecurityContext u1 g1 a1) \<noteq> None)
   \<and> ParseSecurityContext [] [] [] = (emptySecurityContext, None)
   \<and> ParseSecurityContext ''abc'' ''0'' ''true'' =
       (emptySecurityContext,
        Some (WithStack
          (Errorf ''Security context runAsUser "%s" is not a number'' [ArgStr ''abc''])))\<close>
proof -
  have s1: "\<exists>x. ParseInt u = Inr x \<and> RunAsUser (fst (ParseSecurityContext u g a)) = Some x"
    if "snd (ParseSecurityContext u g a) = None" "u \<noteq> []"
    using PSC_success_fields(1) [OF that] by (metis option.collapse)
  have s2: "\<exists>x. ParseInt g = Inr x \<and> RunAsGroup (fst (ParseSecurityContext u g a)) = Some x"
    if "snd (ParseSecurityContext u g a) = None" "g \<noteq> []"
    using PSC_success_fields(2) [OF that] by (metis option.collapse)
  have s3: "\<exists>x. ParseBool a = Inr x
               \<and> AllowPrivilegeEscalation (fst (ParseSecurityContext u g a)) = Some x"
    if "snd (ParseSecurityContext u g a) = None" "a \<noteq> []"
    using PSC_success_fields(3) [OF that] by (metis option.collapse)
  have m: "fst (ParseSecurityContext u1 g1 a1) = emptySecurityContext
            \<and> snd (ParseSecurityContext u1 g1 a1) \<noteq> None"
    if "u1 \<noteq> []" "isl (ParseInt u1)"
    using PSC_user_malformed [OF that] PSC_error_iff [of u1 g1 a1] that by blast
  show ?thesis
    using PSC_fields [of u g a] s1 s2 s3 PSC_error_iff [of u g a] m PSC_empty PSC_abc
    by blast
qed

text \<open>
  An instance: the user \<open>1000\<close> and the flag \<open>false\<close> are set, the empty group is not,
  and the malformed user \<open>abc\<close> gives an error with an empty context.
\<close>

theorem ParseSecurityContext_fields_witness:
  "RunAsUser (fst (ParseSecurityContext ''1000'' [] ''false'')) = Some 1000
   \<and> RunAsGroup (fst (ParseSecurityContext ''1000'' [] ''false'')) = None
   \<and> AllowPrivilegeEscalation (fst (ParseSecurityContext ''1000'' [] ''false'')) = Some False
   \<and> fst (ParseSecurityContext ''abc'' ''0'' ''true'') = emptySecurityContext
   \<and> snd (ParseSecurityContext ''abc'' ''0'' ''true'') \<noteq> None"
proof -
  have h1: "snd (ParseSecurityContext ''1000'' [] ''false'') = None \<and> ''1000'' \<noteq> []
      \<and> ''false'' \<noteq> []"
    by (simp add: PSC_1000)
  have h2: "''abc'' \<noteq> [] \<and> isl (ParseInt ''abc'')"
    by (simp add: ParseInt_abc)
  have h3: "RunAsGroup (fst (ParseSecurityContext ''1000'' [] ''false'')) = None"
    by (simp add: PSC_1000)
  from h1 h2 h3
    ParseSecurityContext_fields
      [where u = "''1000''" and g = "[]" and a = "''false''"
         and ?u1.0 = "''abc''" and ?g1.0 = "''0''" and ?a1.0 = "''true''"]
  show ?thesis
    by (auto simp: ParseInt_1000 ParseBool_false)
qed

section \<open>Properties of GetPluginConfig and newInitcontainerConfig\<close>

lemma fold_names: "fold (\<lambda>item items. items @ [cmName item]) cms acc = acc @ map cmName cms"
  by (induction cms arbitrary: acc) simp_all

text \<open>
  The four outcomes of GetPluginConfig: the error of the query, no record, one record,
  and, for more than one, an error whose arguments are the selector and all the names.
\<close>

lemma GetPluginConfig_cases:
  "GetPluginConfig kind name client =
     (case client (''velero.io/plugin-config,'' @ name @ ''='' @ kind) of
        Inl err \<Rightarrow> (None, Some (WithStack err))
      | Inr cms \<Rightarrow>
          (case cms of
             [] \<Rightarrow> (None, None)
           | [cm] \<Rightarrow> (Some cm, None)
           | _ \<Rightarrow>
               (None,
                Some (Errorf ''found more than one ConfigMap matching label selector %q: %v''
                  [ArgStr (''velero.io/plugin-config,'' @ name @ ''='' @ kind),
                   ArgStrs (map cmName cms)]))))"
  unfolding GetPluginConfig_def Let_def fold_names
  by (auto split: sum.splits list.splits)

lemma selector_eq:
  "''velero.io/plugin-config,'' @ RestorePodActionPluginName @ ''='' @ PluginKindRestoreItemAction
     = pluginSelector"
  by (simp add: RestorePodActionPluginName_def PluginKindRestoreItemAction_def
      pluginSelector_def)

lemma GetPluginConfig_cluster:
  "GetPluginConfig PluginKindRestoreItemAction RestorePodActionPluginName
     (\<lambda>selector. if selector = pluginSelector then Inr cms else Inr []) =
     (case cms of
        [] \<Rightarrow> (None, None)
      | [cm] \<Rightarrow> (Some cm, None)
      | _ \<Rightarrow>
          (None,
           Some (Errorf ''found more than one ConfigMap matching label selector %q: %v''
             [ArgStr pluginSelector, ArgStrs (map cmName cms)])))"
  unfolding GetPluginConfig_cases selector_eq by simp

lemma newInitcontainerConfig_no_client:
  "newInitcontainerConfig (Inl err) = Returns (None, Some err)"
  by (simp add: newInitcontainerConfig_def)

lemma newInitcontainerConfig_none: "newInitcontainerConfig (clusterWith []) = Panic"
  by (simp add: newInitcontainerConfig_def clusterWith_def GetPluginConfig_cases)

text \<open>
  One matching record: the eight verbatim fields, and each resource string either its
  default or empty.
\<close>

lemma newInitcontainerConfig_single:
  "newInitcontainerConfig (clusterWith [cm]) =
     Returns (Some
       \<lparr>clusterID = lookupStr (cmData cm) ''clusterID'',
        kubeMoverPodNamePrefix = lookupStr (cmData cm) ''kubeMoverPodNamePrefix'',
        kubeMoverImage = lookupStr (cmData cm) ''kubeMoverImage'',
        serverAddr = lookupStr (cmData cm) ''serverAddr'',
        useTLS = lookupStr (cmData cm) ''useTLS'',
        cpuRequest = (if lookupStr (cmData cm) ''cpuRequest'' = [] then ''100m'' else []),
        cpuLimit = (if lookupStr (cmData cm) ''cpuLimit'' = [] then ''128Mi'' else []),
        memRequest = (if lookupStr (cmData cm) ''memRequest'' = [] then ''100m'' else []),
        memLimit = (if lookupStr (cmData cm) ''memLimit'' = [] then ''128Mi'' else []),
        runAsRoot = lookupStr (cmData cm) ''runAsRoot'',
        runAsGroup = lookupStr (cmData cm) ''runAsGroup'',
        allowPrivilegeEscalation = lookupStr (cmData cm) ''allowPrivilegeEscalation''\<rparr>, None)"
  by (simp add: newInitcontainerConfig_def clusterWith_def GetPluginConfig_cluster Let_def)

lemma newInitcontainerConfig_example:
  "newInitcontainerConfig (clusterWith [exampleConfigMap]) = Returns (Some exampleConfig, None)"
  by (simp add: newInitcontainerConfig_single exampleConfigMap_def exampleConfig_def
      lookupStr_def)

lemma newInitcontainerConfig_malformedUser:
  "newInitcontainerConfig (clusterWith [malformedUserConfigMap]) =
     Returns (Some malformedUserConfig, None)"
  by (simp add: newInitcontainerConfig_single malformedUserConfigMap_def
      malformedUserConfig_def lookupStr_def)

section \<open>Properties of Execute\<close>

lemma Execute_gate_false:
  "\<not> mutateGate input \<Longrightarrow>
     Execute g input = Returns (Some \<lparr>UpdatedItem = Some (Item input)\<rparr>, None)"
  by (auto simp: Execute_def mutateGate_def NewRestoreItemActionExecuteOutput_def
      split: option.splits)

lemma Execute_gate_true:
  assumes "mutateGate input" "Item input = PodObject p"
  shows "Execute g input =
     (case newInitcontainerConfig g of
        Panic \<Rightarrow> Panic
      | Returns (None, e) \<Rightarrow> Panic
      | Returns (Some cfg, e) \<Rightarrow>
          Returns (Some \<lparr>UpdatedItem = Some (PodObject
             (injectInitContainer cfg (tagged p)
                (map bindingMount (volumeBindings (Volumes p)))
                (map bindingPath (volumeBindings (Volumes p)))))\<rparr>, None))"
  using assms
  by (auto simp: Execute_def mutateGate_def NewRestoreItemActionExecuteOutput_def Accessor_def
      SetAnnotations_def FromUnstructured_def ToUnstructured_def bindVolumes_acc tagged_def
      presenceKey_def Let_def
      split: option.splits outcome.splits)

lemma Execute_gate_true_not_pod:
  assumes "mutateGate input" "\<forall>p. Item input \<noteq> PodObject p"
  shows "\<exists>out e. Execute g input = Returns (out, Some e)"
  using assms
  by (cases "Item input")
     (auto simp: Execute_def mutateGate_def Accessor_def
      SetAnnotations_def FromUnstructured_def Let_def
      split: option.splits)

lemma injectInitContainer_eq:
  "injectInitContainer cfg p m pp =
     p\<lparr>InitContainers :=
         mergeInitContainer (kubeMoverPodNamePrefix cfg @ podName p)
           (buildInitContainer cfg (kubeMoverPodNamePrefix cfg @ podName p) m pp
              (fst (ParseResourceRequirements (cpuRequest cfg) (memRequest cfg) (cpuLimit cfg)
                      (memLimit cfg)))
              (fst (ParseSecurityContext (runAsRoot cfg) (runAsGroup cfg)
                      (allowPrivilegeEscalation cfg))))
           (InitContainers p)\<rparr>"
  by (simp add: injectInitContainer_def Let_def split: prod.splits)

lemma injectInitContainer_idem:
  "injectInitContainer cfg (injectInitContainer cfg p m pp) m pp = injectInitContainer cfg p m pp"
  by (simp add: injectInitContainer_eq merge_twice buildInitContainer_name)

lemma injectInitContainer_other_fields:
  "podName (injectInitContainer cfg p m pp) = podName p"
  "podNamespace (injectInitContainer cfg p m pp) = podNamespace p"
  "podAnnotations (injectInitContainer cfg p m pp) = podAnnotations p"
  "Volumes (injectInitContainer cfg p m pp) = Volumes p"
  by (simp_all add: injectInitContainer_eq)

lemma tagged_fields:
  "podName (tagged p) = podName p" "Volumes (tagged p) = Volumes p"
  "InitContainers (tagged p) = InitContainers p" "podNamespace (tagged p) = podNamespace p"
  by (simp_all add: tagged_def)

lemma tagged_injected:
  "tagged (injectInitContainer cfg (tagged p) m pp) = injectInitContainer cfg (tagged p) m pp"
  by (simp add: injectInitContainer_eq tagged_def)

text \<open>
  A return of Execute without error under an open gate: the item was a Pod, the
  configuration resolved, and the output is that Pod, tagged and with the container
  injected.
\<close>

lemma Execute_pod_result:
  assumes "mutateGate input"
    and "Execute g input = Returns (Some out, None)"
  shows "\<exists>p cfg e. Item input = PodObject p \<and> newInitcontainerConfig g = Returns (Some cfg, e) \<and>
           UpdatedItem out = Some (PodObject
             (injectInitContainer cfg (tagged p)
                (map bindingMount (volumeBindings (Volumes p)))
                (map bindingPath (volumeBindings (Volumes p)))))"
proof (cases "\<exists>p. Item input = PodObject p")
  case False
  then show ?thesis using Execute_gate_true_not_pod [of input g] assms by auto
next
  case True
  then obtain p where p: "Item input = PodObject p" by blast
  show ?thesis
    using Execute_gate_true [OF assms(1) p, of g] assms(2) p
    by (auto split: outcome.splits option.splits prod.splits)
qed

lemma Execute_idem:
  assumes "Execute g \<lparr>Item = it, Restore_Annotations = ra\<rparr>
             = Returns (Some \<lparr>UpdatedItem = Some it'\<rparr>, None)"
  shows "Execute g \<lparr>Item = it', Restore_Annotations = ra\<rparr>
             = Returns (Some \<lparr>UpdatedItem = Some it'\<rparr>, None)"
proof (cases "mutateGate \<lparr>Item = it, Restore_Annotations = ra\<rparr>")
  case False
  then have g2: "\<not> mutateGate \<lparr>Item = it', Restore_Annotations = ra\<rparr>"
    by (simp add: mutateGate_def)
  show ?thesis using Execute_gate_false [OF g2] by simp
next
  case True
  then have g2: "mutateGate \<lparr>Item = it', Restore_Annotations = ra\<rparr>"
    by (simp add: mutateGate_def)
  from Execute_pod_result [OF True assms] obtain p cfg e where
    p: "it = PodObject p" and c: "newInitcontainerConfig g = Returns (Some cfg, e)"
    and r: "it' = PodObject (injectInitContainer cfg (tagged p)
                (map bindingMount (volumeBindings (Volumes p)))
                (map bindingPath (volumeBindings (Volumes p))))"
    by auto
  show ?thesis
    using Execute_gate_true [OF g2, of _ g] r c
    by (simp add: tagged_injected injectInitContainer_other_fields tagged_fields
        injectInitContainer_idem)
qed

lemma gate_offloadRestore: "mutateGate \<lparr>Item = it, Restore_Annotations = offloadRestore\<rparr>"
  by (simp add: mutateGate_def offloadRestore_def)

lemma Execute_example:
  "Execute (clusterWith [exampleConfigMap])
     \<lparr>Item = PodObject examplePod, Restore_Annotations = offloadRestore\<rparr> =
   Returns (Some \<lparr>UpdatedItem = Some (PodObject
     (injectInitContainer exampleConfig (tagged examplePod)
        (map bindingMount (volumeBindings (Volumes examplePod)))
        (map bindingPath (volumeBindings (Volumes examplePod)))))\<rparr>, None)"
  using Execute_gate_true [OF gate_offloadRestore, of "PodObject examplePod" examplePod]
  by (simp add: newInitcontainerConfig_example)

lemma Execute_output_list:
  assumes "ra = Some a" "a ''cloudcasa-restore-from-offload'' \<noteq> None"
    and "Execute g \<lparr>Item = PodObject p, Restore_Annotations = ra\<rparr> = Returns (Some out, None)"
  shows "\<exists>cfg e p'.
           newInitcontainerConfig g = Returns (Some cfg, e)
         \<and> UpdatedItem out = Some (PodObject p')
         \<and> cName (builtContainer cfg p) = kubeMoverPodNamePrefix cfg @ podName p
         \<and> InitContainers p' =
             mergeInitContainer (kubeMoverPodNamePrefix cfg @ podName p) (builtContainer cfg p)
               (InitContainers p)
         \<and> hd (InitContainers p') = builtContainer cfg p
         \<and> Execute g \<lparr>Item = PodObject p', Restore_Annotations = ra\<rparr>
             = Returns (Some out, None)"
proof -
  have gate: "mutateGate \<lparr>Item = PodObject p, Restore_Annotations = ra\<rparr>"
    using assms(1,2) by (simp add: mutateGate_def)
  from Execute_pod_result [OF gate assms(3)] obtain cfg e where
    c: "newInitcontainerConfig g = Returns (Some cfg, e)"
    and r: "UpdatedItem out = Some (PodObject
             (injectInitContainer cfg (tagged p)
                (map bindingMount (volumeBindings (Volumes p)))
                (map bindingPath (volumeBindings (Volumes p)))))"
    by auto
  define p' where "p' = injectInitContainer cfg (tagged p)
                (map bindingMount (volumeBindings (Volumes p)))
                (map bindingPath (volumeBindings (Volumes p)))"
  have n: "cName (builtContainer cfg p) = kubeMoverPodNamePrefix cfg @ podName p"
    by (simp add: builtContainer_def buildInitContainer_name)
  have l: "InitContainers p' =
      mergeInitContainer (kubeMoverPodNamePrefix cfg @ podName p) (builtContainer cfg p)
        (InitContainers p)"
    by (simp add: p'_def injectInitContainer_eq tagged_fields builtContainer_def)
  have h: "hd (InitContainers p') = builtContainer cfg p"
    unfolding l by (cases "InitContainers p") (auto simp: mergeInitContainer_def)
  have o: "out = \<lparr>UpdatedItem = Some (PodObject p')\<rparr>"
    using r by (simp add: p'_def)
  have f: "Execute g \<lparr>Item = PodObject p', Restore_Annotations = ra\<rparr>
             = Returns (Some out, None)"
    using Execute_idem [of g "PodObject p" ra "PodObject p'"] assms(3) o by simp
  show ?thesis
    using c r n l h f unfolding p'_def by blast
qed

lemma Execute_colliding:
  "Execute (clusterWith [exampleConfigMap])
     \<lparr>Item = PodObject collidingPod, Restore_Annotations = offloadRestore\<rparr> =
   Returns (Some \<lparr>UpdatedItem = Some (PodObject
     (injectInitContainer exampleConfig (tagged collidingPod)
        (map bindingMount (volumeBindings (Volumes collidingPod)))
        (map bindingPath (volumeBindings (Volumes collidingPod)))))\<rparr>, None)"
  using Execute_gate_true [OF gate_offloadRestore, of "PodObject collidingPod" collidingPod]
  by (simp add: newInitcontainerConfig_example)

lemma example_names:
  "cName freshContainer = ''km-web''" "cName staleContainer = ''km-web''"
  "cName otherContainer = ''init-db''"
  by (simp_all add: freshContainer_def staleContainer_def otherContainer_def
      buildInitContainer_name)

text \<open>
  Claim C2, as stated, fails in its consequence. The merge looks at the first init
  container only. The Pod of the example has the init containers \<open>init-db\<close> and
  \<open>km-web\<close>, the second with the name that the injected container gets; Execute
  prepends the injected container, and the list of the mutated Pod has two containers of
  that name.
\<close>

theorem Execute_keeps_later_container_of_the_name:
  "map cName (InitContainers collidingPod) = [''init-db'', ''km-web'']
   \<and> kubeMoverPodNamePrefix exampleConfig @ podName collidingPod = ''km-web''
   \<and> Execute (clusterWith [exampleConfigMap])
       \<lparr>Item = PodObject collidingPod, Restore_Annotations = offloadRestore\<rparr> =
     Returns (Some \<lparr>UpdatedItem = Some (PodObject
       (injectInitContainer exampleConfig (tagged collidingPod)
          (map bindingMount (volumeBindings (Volumes collidingPod)))
          (map bindingPath (volumeBindings (Volumes collidingPod)))))\<rparr>, None)
   \<and> map cName (InitContainers
         (injectInitContainer exampleConfig (tagged collidingPod)
            (map bindingMount (volumeBindings (Volumes collidingPod)))
            (map bindingPath (volumeBindings (Volumes collidingPod)))))
       = [''km-web'', ''init-db'', ''km-web'']"
proof -
  have a: "map cName (InitContainers collidingPod) = [''init-db'', ''km-web'']"
    by (simp add: collidingPod_def example_names)
  have b: "kubeMoverPodNamePrefix exampleConfig @ podName collidingPod = ''km-web''"
    by (simp add: exampleConfig_def collidingPod_def examplePod_def)
  have c: "map cName (InitContainers
         (injectInitContainer exampleConfig (tagged collidingPod)
            (map bindingMount (volumeBindings (Volumes collidingPod)))
            (map bindingPath (volumeBindings (Volumes collidingPod)))))
       = [''km-web'', ''init-db'', ''km-web'']"
    using b
    by (simp add: injectInitContainer_eq tagged_fields mergeInitContainer_def
        buildInitContainer_name collidingPod_def example_names)
  show ?thesis using a b c Execute_colliding by simp
qed

text \<open>
  Claim C2, amended. The merge is idempotent. If the init-container list is empty or its
  first element has another name than the computed one, the injected container is
  prepended; if the first element has the computed name, it is replaced and the rest of
  the list is kept as it is. Merging a second time changes nothing. For every Pod that
  Execute mutates, the init-container list of the output is the merge of the container
  it built, named prefix and Pod name, into the list of the input, with that container
  in first position, and Execute on the output with the same configuration returns the
  same output. The injected container is the only one of its name provided no init
  container after the first had that name; such a container is kept.
\<close>

theorem merge_idempotent:
  "(cs1 = [] \<or> cName (hd cs1) \<noteq> n \<longrightarrow> mergeInitContainer n ic cs1 = ic # cs1)
   \<and> (cs2 \<noteq> [] \<and> cName (hd cs2) = n \<longrightarrow> mergeInitContainer n ic cs2 = ic # tl cs2)
   \<and> (cName ic = n \<longrightarrow>
        mergeInitContainer n ic (mergeInitContainer n ic cs) = mergeInitContainer n ic cs)
   \<and> (cName ic = n \<and> (\<forall>c \<in> set (tl cs). cName c \<noteq> n) \<longrightarrow>
        filter (\<lambda>c. cName c = n) (mergeInitContainer n ic cs) = [ic])
   \<and> (ra1 = Some a \<and> a ''cloudcasa-restore-from-offload'' \<noteq> None
       \<and> Execute g1 \<lparr>Item = PodObject p, Restore_Annotations = ra1\<rparr>
           = Returns (Some out, None)
       \<longrightarrow> (\<exists>cfg e p'.
              newInitcontainerConfig g1 = Returns (Some cfg, e)
            \<and> UpdatedItem out = Some (PodObject p')
            \<and> cName (builtContainer cfg p) = kubeMoverPodNamePrefix cfg @ podName p
            \<and> InitContainers p' =
                mergeInitContainer (kubeMoverPodNamePrefix cfg @ podName p)
                  (builtContainer cfg p) (InitContainers p)
            \<and> hd (InitContainers p') = builtContainer cfg p
            \<and> Execute g1 \<lparr>Item = PodObject p', Restore_Annotations = ra1\<rparr>
                = Returns (Some out, None)))
   \<and> (Execute g \<lparr>Item = it, Restore_Annotations = ra\<rparr>
         = Returns (Some \<lparr>UpdatedItem = Some it'\<rparr>, None)
       \<longrightarrow> Execute g \<lparr>Item = it', Restore_Annotations = ra\<rparr>
         = Returns (Some \<lparr>UpdatedItem = Some it'\<rparr>, None))"
  using merge_prepend [of cs1 n ic] merge_replace [of cs2 n ic] merge_twice [of ic n cs]
    merge_single [of ic n cs] Execute_idem [of g it ra it']
    Execute_output_list [of ra1 a g1 p out]
  by blast

text \<open>
  An instance: a list with another container, a list that starts with a stale injected
  container, and the example Pod mutated once and then again.
\<close>

theorem merge_idempotent_witness:
  "mergeInitContainer ''km-web'' freshContainer [otherContainer]
     = [freshContainer, otherContainer]
   \<and> mergeInitContainer ''km-web'' freshContainer [staleContainer, otherContainer]
     = [freshContainer, otherContainer]
   \<and> mergeInitContainer ''km-web'' freshContainer
        (mergeInitContainer ''km-web'' freshContainer [otherContainer])
     = mergeInitContainer ''km-web'' freshContainer [otherContainer]
   \<and> filter (\<lambda>c. cName c = ''km-web'')
        (mergeInitContainer ''km-web'' freshContainer [otherContainer]) = [freshContainer]
   \<and> (\<exists>p'. Execute (clusterWith [exampleConfigMap])
              \<lparr>Item = PodObject examplePod, Restore_Annotations = offloadRestore\<rparr>
            = Returns (Some \<lparr>UpdatedItem = Some (PodObject p')\<rparr>, None)
          \<and> InitContainers p' = [builtContainer exampleConfig examplePod]
          \<and> cName (builtContainer exampleConfig examplePod) = ''km-web''
          \<and> Execute (clusterWith [exampleConfigMap])
              \<lparr>Item = PodObject p', Restore_Annotations = offloadRestore\<rparr>
            = Returns (Some \<lparr>UpdatedItem = Some (PodObject p')\<rparr>, None))"
proof -
  let ?g = "clusterWith [exampleConfigMap]"
  let ?it' = "PodObject
           (injectInitContainer exampleConfig (tagged examplePod)
              (map bindingMount (volumeBindings (Volumes examplePod)))
              (map bindingPath (volumeBindings (Volumes examplePod))))"
  let ?out = "\<lparr>UpdatedItem = Some ?it'\<rparr>"
  have n: "cName freshContainer = ''km-web''" "cName staleContainer = ''km-web''"
    "cName otherContainer \<noteq> ''km-web''"
    by (simp_all add: example_names)
  have h1: "[otherContainer] = [] \<or> cName (hd [otherContainer]) \<noteq> ''km-web''"
    using n by simp
  have h2: "[staleContainer, otherContainer] \<noteq> []
      \<and> cName (hd [staleContainer, otherContainer]) = ''km-web''"
    using n by simp
  have h3: "cName freshContainer = ''km-web''
      \<and> (\<forall>c \<in> set (tl [otherContainer]). cName c \<noteq> ''km-web'')"
    using n by simp
  have h4: "offloadRestore = Some [''cloudcasa-restore-from-offload'' \<mapsto> ''true'']
      \<and> [''cloudcasa-restore-from-offload'' \<mapsto> ''true''] ''cloudcasa-restore-from-offload''
          \<noteq> None
      \<and> Execute ?g \<lparr>Item = PodObject examplePod, Restore_Annotations = offloadRestore\<rparr>
          = Returns (Some ?out, None)"
    using Execute_example by (simp add: offloadRestore_def)
  note t = merge_idempotent
      [where ?cs1.0 = "[otherContainer]" and n = "''km-web''" and ic = freshContainer
         and ?cs2.0 = "[staleContainer, otherContainer]" and cs = "[otherContainer]"
         and g = ?g and it = "PodObject examplePod" and ra = offloadRestore and it' = ?it'
         and ?ra1.0 = offloadRestore
         and a = "[''cloudcasa-restore-from-offload'' \<mapsto> ''true'']"
         and ?g1.0 = ?g and p = examplePod and out = ?out]
  have m: "mergeInitContainer ''km-web'' freshContainer [otherContainer]
          = freshContainer # [otherContainer]
      \<and> mergeInitContainer ''km-web'' freshContainer [staleContainer, otherContainer]
          = freshContainer # tl [staleContainer, otherContainer]
      \<and> mergeInitContainer ''km-web'' freshContainer
            (mergeInitContainer ''km-web'' freshContainer [otherContainer])
          = mergeInitContainer ''km-web'' freshContainer [otherContainer]
      \<and> filter (\<lambda>c. cName c = ''km-web'')
            (mergeInitContainer ''km-web'' freshContainer [otherContainer]) = [freshContainer]"
    using h1 h2 h3 t by blast
  from h4 t obtain cfg e p' where
    e: "newInitcontainerConfig ?g = Returns (Some cfg, e)"
      "UpdatedItem ?out = Some (PodObject p')"
      "cName (builtContainer cfg examplePod) = kubeMoverPodNamePrefix cfg @ podName examplePod"
      "InitContainers p' =
         mergeInitContainer (kubeMoverPodNamePrefix cfg @ podName examplePod)
           (builtContainer cfg examplePod) (InitContainers examplePod)"
      "Execute ?g \<lparr>Item = PodObject p', Restore_Annotations = offloadRestore\<rparr>
         = Returns (Some ?out, None)"
    by blast
  have cfg: "cfg = exampleConfig"
    using e(1) by (simp add: newInitcontainerConfig_example)
  have p': "?it' = PodObject p'" using e(2) by simp
  have w: "Execute ?g \<lparr>Item = PodObject examplePod, Restore_Annotations = offloadRestore\<rparr>
            = Returns (Some \<lparr>UpdatedItem = Some (PodObject p')\<rparr>, None)
          \<and> InitContainers p' = [builtContainer exampleConfig examplePod]
          \<and> cName (builtContainer exampleConfig examplePod) = ''km-web''
          \<and> Execute ?g \<lparr>Item = PodObject p', Restore_Annotations = offloadRestore\<rparr>
            = Returns (Some \<lparr>UpdatedItem = Some (PodObject p')\<rparr>, None)"
    using h4 e(3,4,5) cfg p'
    by (simp add: examplePod_def exampleConfig_def mergeInitContainer_def)
  have x: "\<exists>p'. Execute ?g
              \<lparr>Item = PodObject examplePod, Restore_Annotations = offloadRestore\<rparr>
            = Returns (Some \<lparr>UpdatedItem = Some (PodObject p')\<rparr>, None)
          \<and> InitContainers p' = [builtContainer exampleConfig examplePod]
          \<and> cName (builtContainer exampleConfig examplePod) = ''km-web''
          \<and> Execute ?g \<lparr>Item = PodObject p', Restore_Annotations = offloadRestore\<rparr>
            = Returns (Some \<lparr>UpdatedItem = Some (PodObject p')\<rparr>, None)"
    by (rule exI [where x = p']) (rule w)
  show ?thesis
    using m n x by (simp add: mergeInitContainer_def)
qed

text \<open>
  Claim C9. For every Pod that Execute mutates, the injected container is the first init
  container; its name is the prefix followed by the Pod's name; its arguments are
  \<open>/usr/local/bin/kubemover\<close>, \<open>--server_addr\<close>, the server address, \<open>--tls\<close>, the TLS
  flag, then the mount path of every binding in the order of the volumes; and its
  environment sets \<open>AMDS_CLUSTER_ID\<close> as a literal value and \<open>POD_NAMESPACE\<close> and
  \<open>POD_NAME\<close> by field references to \<open>metadata.namespace\<close> and \<open>metadata.name\<close>.
\<close>

theorem Execute_injected_container:
  assumes "Restore_Annotations input = Some ra"
    and "ra ''cloudcasa-restore-from-offload'' \<noteq> None"
    and "Execute g input = Returns (Some out, None)"
  shows "\<exists>p cfg e p' c rest.
           Item input = PodObject p
         \<and> newInitcontainerConfig g = Returns (Some cfg, e)
         \<and> UpdatedItem out = Some (PodObject p')
         \<and> InitContainers p' = c # rest
         \<and> cName c = kubeMoverPodNamePrefix cfg @ podName p
         \<and> cArgs c =
             [''/usr/local/bin/kubemover'', ''--server_addr'', serverAddr cfg,
              ''--tls'', useTLS cfg] @ map bindingPath (volumeBindings (Volumes p))
         \<and> cEnv c =
             [\<lparr>evName = ''AMDS_CLUSTER_ID'', evValue = clusterID cfg, evValueFrom = None\<rparr>,
              \<lparr>evName = ''POD_NAMESPACE'', evValue = [],
               evValueFrom =
                 Some (EnvVarSource (Some (ObjectFieldSelector ''metadata.namespace'')))\<rparr>,
              \<lparr>evName = ''POD_NAME'', evValue = [],
               evValueFrom =
                 Some (EnvVarSource (Some (ObjectFieldSelector ''metadata.name'')))\<rparr>]"
proof -
  have gate: "mutateGate input" using assms(1,2) by (simp add: mutateGate_def)
  from Execute_pod_result [OF gate assms(3)] obtain p cfg e where
    p: "Item input = PodObject p" and c: "newInitcontainerConfig g = Returns (Some cfg, e)"
    and r: "UpdatedItem out = Some (PodObject
             (injectInitContainer cfg (tagged p)
                (map bindingMount (volumeBindings (Volumes p)))
                (map bindingPath (volumeBindings (Volumes p)))))"
    by blast
  define ic where "ic =
    buildInitContainer cfg (kubeMoverPodNamePrefix cfg @ podName p)
      (map bindingMount (volumeBindings (Volumes p)))
      (map bindingPath (volumeBindings (Volumes p)))
      (fst (ParseResourceRequirements (cpuRequest cfg) (memRequest cfg) (cpuLimit cfg)
              (memLimit cfg)))
      (fst (ParseSecurityContext (runAsRoot cfg) (runAsGroup cfg)
              (allowPrivilegeEscalation cfg)))"
  define p' where "p' = injectInitContainer cfg (tagged p)
                (map bindingMount (volumeBindings (Volumes p)))
                (map bindingPath (volumeBindings (Volumes p)))"
  have "InitContainers p' =
      mergeInitContainer (kubeMoverPodNamePrefix cfg @ podName p) ic (InitContainers p)"
    by (simp add: p'_def ic_def injectInitContainer_eq tagged_fields)
  then have "\<exists>rest. InitContainers p' = ic # rest"
    by (cases "InitContainers p") (auto simp: mergeInitContainer_def)
  then obtain rest where l: "InitContainers p' = ic # rest" by blast
  have f: "cName ic = kubeMoverPodNamePrefix cfg @ podName p"
    "cArgs ic =
       [''/usr/local/bin/kubemover'', ''--server_addr'', serverAddr cfg,
        ''--tls'', useTLS cfg] @ map bindingPath (volumeBindings (Volumes p))"
    "cEnv ic =
       [\<lparr>evName = ''AMDS_CLUSTER_ID'', evValue = clusterID cfg, evValueFrom = None\<rparr>,
        \<lparr>evName = ''POD_NAMESPACE'', evValue = [],
         evValueFrom =
           Some (EnvVarSource (Some (ObjectFieldSelector ''metadata.namespace'')))\<rparr>,
        \<lparr>evName = ''POD_NAME'', evValue = [],
         evValueFrom =
           Some (EnvVarSource (Some (ObjectFieldSelector ''metadata.name'')))\<rparr>]"
    by (simp_all add: ic_def buildInitContainer_def)
  show ?thesis
    using p c r l f unfolding p'_def by blast
qed

text \<open>
  An instance: the example Pod \<open>web\<close> with the claims \<open>data\<close> and \<open>logs\<close> under the
  example configuration.
\<close>

theorem Execute_injected_container_witness:
  "\<exists>p' c rest.
     Execute (clusterWith [exampleConfigMap])
       \<lparr>Item = PodObject examplePod, Restore_Annotations = offloadRestore\<rparr>
       = Returns (Some \<lparr>UpdatedItem = Some (PodObject p')\<rparr>, None)
     \<and> InitContainers p' = c # rest
     \<and> cName c = ''km-web''
     \<and> cArgs c =
         [''/usr/local/bin/kubemover'', ''--server_addr'', ''amds:443'', ''--tls'', ''true'',
          ''/data'', ''/logs'']
     \<and> map evName (cEnv c) = [''AMDS_CLUSTER_ID'', ''POD_NAMESPACE'', ''POD_NAME'']"
proof -
  have h1: "Restore_Annotations
      \<lparr>Item = PodObject examplePod, Restore_Annotations = offloadRestore\<rparr>
      = Some [''cloudcasa-restore-from-offload'' \<mapsto> ''true'']"
    by (simp add: offloadRestore_def)
  have h2: "[''cloudcasa-restore-from-offload'' \<mapsto> ''true'']
      ''cloudcasa-restore-from-offload'' \<noteq> None"
    by simp
  from Execute_injected_container [OF h1 h2 Execute_example]
  obtain p cfg e p' c rest where
    "PodObject examplePod = PodObject p"
    "newInitcontainerConfig (clusterWith [exampleConfigMap]) = Returns (Some cfg, e)"
    "PodObject
       (injectInitContainer exampleConfig (tagged examplePod)
          (map bindingMount (volumeBindings (Volumes examplePod)))
          (map bindingPath (volumeBindings (Volumes examplePod)))) = PodObject p'"
    "InitContainers p' = c # rest"
    "cName c = kubeMoverPodNamePrefix cfg @ podName p"
    "cArgs c =
       [''/usr/local/bin/kubemover'', ''--server_addr'', serverAddr cfg,
        ''--tls'', useTLS cfg] @ map bindingPath (volumeBindings (Volumes p))"
    "cEnv c =
       [\<lparr>evName = ''AMDS_CLUSTER_ID'', evValue = clusterID cfg, evValueFrom = None\<rparr>,
        \<lparr>evName = ''POD_NAMESPACE'', evValue = [],
         evValueFrom =
           Some (EnvVarSource (Some (ObjectFieldSelector ''metadata.namespace'')))\<rparr>,
        \<lparr>evName = ''POD_NAME'', evValue = [],
         evValueFrom =
           Some (EnvVarSource (Some (ObjectFieldSelector ''metadata.name'')))\<rparr>]"
    by auto
  then have w:
    "Execute (clusterWith [exampleConfigMap])
       \<lparr>Item = PodObject examplePod, Restore_Annotations = offloadRestore\<rparr>
       = Returns (Some \<lparr>UpdatedItem = Some (PodObject p')\<rparr>, None)
     \<and> InitContainers p' = c # rest
     \<and> cName c = ''km-web''
     \<and> cArgs c =
         [''/usr/local/bin/kubemover'', ''--server_addr'', ''amds:443'', ''--tls'', ''true'',
          ''/data'', ''/logs'']
     \<and> map evName (cEnv c) = [''AMDS_CLUSTER_ID'', ''POD_NAMESPACE'', ''POD_NAME'']"
    using Execute_example
    by (auto simp: newInitcontainerConfig_example exampleConfig_def examplePod_def
        volumeBindings_example bindingPath_def)
  show ?thesis
    by (rule exI [where x = p'], rule exI [where x = c], rule exI [where x = rest]) (rule w)
qed

lemma gate_exampleInput: "mutateGate exampleInput"
  by (simp add: exampleInput_def gate_offloadRestore)

lemma newInitcontainerConfig_cpu:
  "newInitcontainerConfig (clusterWith [cpuConfigMap]) = Returns (Some cpuConfig, None)"
  by (simp add: newInitcontainerConfig_single cpuConfigMap_def cpuConfig_def lookupStr_def)

text \<open>
  With the gate closed, Execute returns the input item as it came and no error, whatever
  the item and the cluster are.
\<close>

lemma Execute_gate_closed_passes_through:
  assumes "Restore_Annotations input = None
     \<or> (\<exists>a. Restore_Annotations input = Some a \<and> a ''cloudcasa-restore-from-offload'' = None)"
  shows "Execute g input = Returns (Some \<lparr>UpdatedItem = Some (Item input)\<rparr>, None)"
proof -
  have "\<not> mutateGate input" using assms by (auto simp: mutateGate_def)
  then show ?thesis by (rule Execute_gate_false)
qed

text \<open>
  Claim C3 fails on the code. With a restore that has no annotations, or annotations
  without the key \<open>cloudcasa-restore-from-offload\<close>, Execute returns before the presence
  annotation is written. The example Pod has no annotations, and the Pod returned has
  none either: its init-container list is unchanged and no error is returned, but the
  presence annotation is not set.
\<close>

theorem Execute_gate_closed_sets_no_annotation:
  "Execute (clusterWith [exampleConfigMap])
     \<lparr>Item = PodObject examplePod, Restore_Annotations = None\<rparr>
     = Returns (Some \<lparr>UpdatedItem = Some (PodObject examplePod)\<rparr>, None)
   \<and> Execute (clusterWith [exampleConfigMap])
     \<lparr>Item = PodObject examplePod, Restore_Annotations = Some [''velero.io/x'' \<mapsto> ''y'']\<rparr>
     = Returns (Some \<lparr>UpdatedItem = Some (PodObject examplePod)\<rparr>, None)
   \<and> podAnnotations examplePod = None"
  by (simp add: Execute_def NewRestoreItemActionExecuteOutput_def examplePod_def)

text \<open>
  Claim C1 fails on the code. Execute assigns the errors of newInitcontainerConfig,
  ParseResourceRequirements and ParseSecurityContext and never tests them. With the
  malformed user \<open>abc\<close> in the record, ParseSecurityContext fails, and Execute returns
  the Pod with the container injected and no error. The same happens when
  ParseResourceRequirements fails on an empty resource string. When the configuration
  cannot be resolved, Execute dereferences the \<open>nil\<close> configuration and panics instead
  of returning the error.
\<close>

theorem Execute_ignores_configuration_errors:
  "snd (ParseSecurityContext (runAsRoot malformedUserConfig) (runAsGroup malformedUserConfig)
          (allowPrivilegeEscalation malformedUserConfig)) \<noteq> None
   \<and> Execute (clusterWith [malformedUserConfigMap]) exampleInput
       = Returns (Some \<lparr>UpdatedItem = Some (PodObject
           (injectInitContainer malformedUserConfig (tagged examplePod)
              (map bindingMount (volumeBindings (Volumes examplePod)))
              (map bindingPath (volumeBindings (Volumes examplePod)))))\<rparr>, None)
   \<and> map cName (InitContainers
         (injectInitContainer malformedUserConfig (tagged examplePod)
            (map bindingMount (volumeBindings (Volumes examplePod)))
            (map bindingPath (volumeBindings (Volumes examplePod))))) = [''km-web'']
   \<and> InitContainers examplePod = []
   \<and> snd (ParseResourceRequirements (cpuRequest cpuConfig) (memRequest cpuConfig)
          (cpuLimit cpuConfig) (memLimit cpuConfig)) \<noteq> None
   \<and> Execute (clusterWith [cpuConfigMap]) exampleInput
       = Returns (Some \<lparr>UpdatedItem = Some (PodObject
           (injectInitContainer cpuConfig (tagged examplePod)
              (map bindingMount (volumeBindings (Volumes examplePod)))
              (map bindingPath (volumeBindings (Volumes examplePod)))))\<rparr>, None)
   \<and> newInitcontainerConfig (Inl (External ''no cluster configuration''))
       = Returns (None, Some (External ''no cluster configuration''))
   \<and> Execute (Inl (External ''no cluster configuration'')) exampleInput = Panic"
proof -
  have a: "snd (ParseSecurityContext (runAsRoot malformedUserConfig)
          (runAsGroup malformedUserConfig) (allowPrivilegeEscalation malformedUserConfig))
        \<noteq> None"
    using PSC_error_iff [of "''abc''" "[]" "[]"]
    by (simp add: malformedUserConfig_def ParseInt_abc)
  have p: "Item exampleInput = PodObject examplePod"
    by (simp add: exampleInput_def)
  have b: "Execute (clusterWith [malformedUserConfigMap]) exampleInput
       = Returns (Some \<lparr>UpdatedItem = Some (PodObject
           (injectInitContainer malformedUserConfig (tagged examplePod)
              (map bindingMount (volumeBindings (Volumes examplePod)))
              (map bindingPath (volumeBindings (Volumes examplePod)))))\<rparr>, None)"
    using Execute_gate_true [OF gate_exampleInput p]
    by (simp add: newInitcontainerConfig_malformedUser)
  have c: "map cName (InitContainers
         (injectInitContainer malformedUserConfig (tagged examplePod)
            (map bindingMount (volumeBindings (Volumes examplePod)))
            (map bindingPath (volumeBindings (Volumes examplePod))))) = [''km-web'']"
    by (simp add: injectInitContainer_eq tagged_fields examplePod_def mergeInitContainer_def
        buildInitContainer_name malformedUserConfig_def)
  have d: "snd (ParseResourceRequirements (cpuRequest cpuConfig) (memRequest cpuConfig)
          (cpuLimit cpuConfig) (memLimit cpuConfig)) \<noteq> None"
    using PRR_parse_error [of "[]" "''100m''" "[]" "''128Mi''"]
    by (simp add: cpuConfig_def ParseQuantity_empty)
  have e: "Execute (clusterWith [cpuConfigMap]) exampleInput
       = Returns (Some \<lparr>UpdatedItem = Some (PodObject
           (injectInitContainer cpuConfig (tagged examplePod)
              (map bindingMount (volumeBindings (Volumes examplePod)))
              (map bindingPath (volumeBindings (Volumes examplePod)))))\<rparr>, None)"
    using Execute_gate_true [OF gate_exampleInput p]
    by (simp add: newInitcontainerConfig_cpu)
  have f: "Execute (Inl (External ''no cluster configuration'')) exampleInput = Panic"
    using Execute_gate_true [OF gate_exampleInput p]
    by (simp add: newInitcontainerConfig_no_client)
  show ?thesis
    using a b c d e f by (simp add: newInitcontainerConfig_no_client examplePod_def)
qed

text \<open>
  Claim C5 fails on the code. The record of the example sets \<open>cpuRequest\<close> to \<open>200m\<close> and
  \<open>cpuLimit\<close> to \<open>500m\<close> and has no \<open>memRequest\<close> and no \<open>memLimit\<close>. The two missing
  fields get their defaults, but the two configured ones are not taken from the record:
  they stay empty.
\<close>

theorem newInitcontainerConfig_drops_configured_resources:
  "lookupStr (cmData cpuConfigMap) ''cpuRequest'' = ''200m''
   \<and> lookupStr (cmData cpuConfigMap) ''cpuLimit'' = ''500m''
   \<and> lookupStr (cmData cpuConfigMap) ''memRequest'' = []
   \<and> lookupStr (cmData cpuConfigMap) ''memLimit'' = []
   \<and> newInitcontainerConfig (clusterWith [cpuConfigMap]) = Returns (Some cpuConfig, None)
   \<and> cpuRequest cpuConfig = []
   \<and> cpuLimit cpuConfig = []
   \<and> memRequest cpuConfig = ''100m''
   \<and> memLimit cpuConfig = ''128Mi''"
proof -
  have "lookupStr (cmData cpuConfigMap) ''cpuRequest'' = ''200m''
     \<and> lookupStr (cmData cpuConfigMap) ''cpuLimit'' = ''500m''
     \<and> lookupStr (cmData cpuConfigMap) ''memRequest'' = []
     \<and> lookupStr (cmData cpuConfigMap) ''memLimit'' = []"
    by (simp add: cpuConfigMap_def lookupStr_def)
  moreover have "cpuRequest cpuConfig = [] \<and> cpuLimit cpuConfig = []
     \<and> memRequest cpuConfig = ''100m'' \<and> memLimit cpuConfig = ''128Mi''"
    by (simp add: cpuConfig_def)
  ultimately show ?thesis
    using newInitcontainerConfig_cpu by blast
qed

text \<open>
  Claim C8 fails on the code. With no matching record GetPluginConfig returns \<open>nil\<close> and
  no error, but its caller newInitcontainerConfig reads \<open>config.Data\<close> of that \<open>nil\<close>
  and panics, and so does Execute: the outcome is not handled as a default-only
  configuration.
\<close>

theorem newInitcontainerConfig_no_record_panics:
  "GetPluginConfig PluginKindRestoreItemAction RestorePodActionPluginName
     (\<lambda>selector. Inr []) = (None, None)
   \<and> newInitcontainerConfig (clusterWith []) = Panic
   \<and> Execute (clusterWith []) exampleInput = Panic"
proof -
  have p: "Item exampleInput = PodObject examplePod"
    by (simp add: exampleInput_def)
  have "Execute (clusterWith []) exampleInput = Panic"
    using Execute_gate_true [OF gate_exampleInput p]
    by (simp add: newInitcontainerConfig_none)
  then show ?thesis
    by (simp add: GetPluginConfig_cases newInitcontainerConfig_none)
qed


end
